theory Spec2Isabelle
  imports Main "HOL-Library.Word"
begin

unbundle bit_operations_syntax

section \<open>Common types of the network stack\<close>

text \<open>
  The drivers return an \<^verbatim>\<open>error_t\<close> status code. Only the codes that the modelled
  functions return are listed.
\<close>

datatype error_t =
    NO_ERROR
  | ERROR_FAILURE
  | ERROR_INVALID_LENGTH
  | ERROR_INVALID_PACKET
  | ERROR_BUFFER_EMPTY
  | ERROR_TABLE_FULL
  | ERROR_NOT_FOUND
  | ERROR_END_OF_TABLE
  | ERROR_INVALID_ENTRY

type_synonym u8 = "8 word"
type_synonym u16 = "16 word"
type_synonym u32 = "32 word"

text \<open>
  A MAC address is the union of six bytes \<^verbatim>\<open>b[6]\<close> and three 16-bit words \<^verbatim>\<open>w[3]\<close>.
  The bytes are the primary view; \<^verbatim>\<open>w[i]\<close> is read little-endian, as on the Cortex-M
  targets of the MAC drivers.
\<close>

record MacAddr =
  b0 :: u8
  b1 :: u8
  b2 :: u8
  b3 :: u8
  b4 :: u8
  b5 :: u8

definition macBytes :: "MacAddr \<Rightarrow> u8 list" where
  "macBytes a = [b0 a, b1 a, b2 a, b3 a, b4 a, b5 a]"

definition macW0 :: "MacAddr \<Rightarrow> u32" where
  "macW0 a = ucast (b0 a) OR push_bit 8 (ucast (b1 a))"

definition macW1 :: "MacAddr \<Rightarrow> u32" where
  "macW1 a = ucast (b2 a) OR push_bit 8 (ucast (b3 a))"

definition macW2 :: "MacAddr \<Rightarrow> u32" where
  "macW2 a = ucast (b4 a) OR push_bit 8 (ucast (b5 a))"

definition MAC_UNSPECIFIED_ADDR :: MacAddr where
  "MAC_UNSPECIFIED_ADDR = \<lparr>b0 = 0, b1 = 0, b2 = 0, b3 = 0, b4 = 0, b5 = 0\<rparr>"

text \<open>\<^verbatim>\<open>macIsMulticastAddr\<close>: the group bit is the least significant bit of the first byte.\<close>

definition macIsMulticastAddr :: "MacAddr \<Rightarrow> bool" where
  "macIsMulticastAddr a \<longleftrightarrow> (b0 a AND 0x01) \<noteq> 0"

text \<open>\<^verbatim>\<open>macCompAddr\<close> compares the six bytes.\<close>

definition macCompAddr :: "MacAddr \<Rightarrow> MacAddr \<Rightarrow> bool" where
  "macCompAddr a1 a2 \<longleftrightarrow> macBytes a1 = macBytes a2"

record MacFilterEntry =
  addr :: MacAddr
  refCount :: nat

text \<open>
  The fields of \<^verbatim>\<open>NetInterface\<close> that the modelled driver functions read or write.
  \<open>spiDriver\<close> is \<open>True\<close> when the pointer \<^verbatim>\<open>interface->spiDriver\<close> is not \<^verbatim>\<open>NULL\<close>.
\<close>

record NetInterface =
  macAddr :: MacAddr
  macAddrFilter :: "MacFilterEntry list"
  nicTxEvent :: bool
  spiDriver :: bool

record NetRxAncillary =
  port :: u8

record SwitchFdbEntry =
  fdbMacAddr :: MacAddr
  srcPort :: u8
  destPorts :: u32
  override :: bool


section \<open>MSP432E4 Ethernet MAC\<close>

subsection \<open>Descriptors and registers\<close>

text \<open>
  Enhanced DMA descriptors of eight 32-bit words (32 bytes), and the flag bits of the
  descriptor words that the driver uses, in the layout of the EMAC of this controller.
\<close>

record Msp432e4TxDmaDesc =
  tdes0 :: u32
  tdes1 :: u32
  tdes2 :: u32
  tdes3 :: u32
  tdes4 :: u32
  tdes5 :: u32
  tdes6 :: u32
  tdes7 :: u32

record Msp432e4RxDmaDesc =
  rdes0 :: u32
  rdes1 :: u32
  rdes2 :: u32
  rdes3 :: u32
  rdes4 :: u32
  rdes5 :: u32
  rdes6 :: u32
  rdes7 :: u32

definition EMAC_TDES0_OWN :: u32 where
  "EMAC_TDES0_OWN = 0x80000000"

definition EMAC_TDES0_IC :: u32 where
  "EMAC_TDES0_IC = 0x40000000"

definition EMAC_TDES0_LS :: u32 where
  "EMAC_TDES0_LS = 0x20000000"

definition EMAC_TDES0_FS :: u32 where
  "EMAC_TDES0_FS = 0x10000000"

definition EMAC_TDES0_TCH :: u32 where
  "EMAC_TDES0_TCH = 0x00100000"

definition EMAC_TDES1_TBS1 :: u32 where
  "EMAC_TDES1_TBS1 = 0x00001FFF"

definition EMAC_RDES0_OWN :: u32 where
  "EMAC_RDES0_OWN = 0x80000000"

definition EMAC_RDES0_FL :: u32 where
  "EMAC_RDES0_FL = 0x3FFF0000"

definition EMAC_RDES0_ES :: u32 where
  "EMAC_RDES0_ES = 0x00008000"

definition EMAC_RDES0_FS :: u32 where
  "EMAC_RDES0_FS = 0x00000200"

definition EMAC_RDES0_LS :: u32 where
  "EMAC_RDES0_LS = 0x00000100"

definition EMAC_RDES1_RCH :: u32 where
  "EMAC_RDES1_RCH = 0x00004000"

definition EMAC_RDES1_RBS1 :: u32 where
  "EMAC_RDES1_RBS1 = 0x00001FFF"

definition EMAC_DMARIS_TU :: u32 where
  "EMAC_DMARIS_TU = 0x00000004"

definition EMAC_DMARIS_RU :: u32 where
  "EMAC_DMARIS_RU = 0x00000080"

definition EMAC_ADDR1H_AE :: u32 where
  "EMAC_ADDR1H_AE = 0x80000000"

definition EMAC_ADDR2H_AE :: u32 where
  "EMAC_ADDR2H_AE = 0x80000000"

definition EMAC_ADDR3H_AE :: u32 where
  "EMAC_ADDR3H_AE = 0x80000000"

text \<open>
  The registers of \<^verbatim>\<open>EMAC0\<close> that the modelled functions write. Each field holds the
  value the driver wrote last.
\<close>

record EMAC0_regs =
  DMARIS :: u32
  TXPOLLD :: u32
  RXPOLLD :: u32
  TXDLADDR :: u32
  RXDLADDR :: u32
  ADDR0L :: u32
  ADDR0H :: u32
  ADDR1L :: u32
  ADDR1H :: u32
  ADDR2L :: u32
  ADDR2H :: u32
  ADDR3L :: u32
  ADDR3H :: u32
  HASHTBLL :: u32
  HASHTBLH :: u32

text \<open>
  The configuration of the driver: the buffer counts and sizes of the driver's header
  (user-configurable macros) and the addresses at which the linker places the four
  static arrays.
\<close>

record Msp432e4Config =
  MSP432E4_ETH_TX_BUFFER_COUNT :: nat
  MSP432E4_ETH_TX_BUFFER_SIZE :: nat
  MSP432E4_ETH_RX_BUFFER_COUNT :: nat
  MSP432E4_ETH_RX_BUFFER_SIZE :: nat
  txDmaDescBase :: u32
  rxDmaDescBase :: u32
  txBufferBase :: u32
  rxBufferBase :: u32

text \<open>
  The static variables of the driver and the memory they live in. Descriptor memory is
  addressed by the 32-bit address of a descriptor, buffer memory by byte address.
  \<open>processed\<close> lists the frames handed to \<^verbatim>\<open>nicProcessPacket\<close> (buffer address and
  length), most recent last.
\<close>

record Msp432e4Eth =
  txDmaDesc :: "u32 \<Rightarrow> Msp432e4TxDmaDesc"
  rxDmaDesc :: "u32 \<Rightarrow> Msp432e4RxDmaDesc"
  txCurDmaDesc :: u32
  rxCurDmaDesc :: u32
  bufferMem :: "u32 \<Rightarrow> u8"
  EMAC0 :: EMAC0_regs
  processed :: "(u32 \<times> u32) list"

text \<open>\<^verbatim>\<open>&txDmaDesc[i]\<close>, \<^verbatim>\<open>&rxDmaDesc[i]\<close>, \<^verbatim>\<open>txBuffer[i]\<close> and \<^verbatim>\<open>rxBuffer[i]\<close>.\<close>

definition txDmaDescAddr :: "Msp432e4Config \<Rightarrow> nat \<Rightarrow> u32" where
  "txDmaDescAddr cfg i = txDmaDescBase cfg + 32 * of_nat i"

definition rxDmaDescAddr :: "Msp432e4Config \<Rightarrow> nat \<Rightarrow> u32" where
  "rxDmaDescAddr cfg i = rxDmaDescBase cfg + 32 * of_nat i"

definition txBufferAddr :: "Msp432e4Config \<Rightarrow> nat \<Rightarrow> u32" where
  "txBufferAddr cfg i = txBufferBase cfg + of_nat (i * MSP432E4_ETH_TX_BUFFER_SIZE cfg)"

definition rxBufferAddr :: "Msp432e4Config \<Rightarrow> nat \<Rightarrow> u32" where
  "rxBufferAddr cfg i = rxBufferBase cfg + of_nat (i * MSP432E4_ETH_RX_BUFFER_SIZE cfg)"


subsection \<open>Initialisation of the descriptor lists\<close>

text \<open>
  \<^verbatim>\<open>msp432e4EthInitDmaDesc\<close>. Each \<^verbatim>\<open>for\<close> loop runs \<open>i\<close> over \<open>0, \<dots>, COUNT - 1\<close>
  and assigns all eight words of descriptor \<open>i\<close>; after the loop \<open>i = COUNT\<close>, and
  descriptor \<open>i - 1\<close> is linked to the first one. The header refuses a count below 1.
\<close>

definition initTxDmaDesc :: "Msp432e4Config \<Rightarrow> nat \<Rightarrow> Msp432e4TxDmaDesc" where
  "initTxDmaDesc cfg i =
     \<lparr>tdes0 = EMAC_TDES0_IC OR EMAC_TDES0_TCH,
      tdes1 = 0,
      tdes2 = txBufferAddr cfg i,
      tdes3 = txDmaDescAddr cfg (i + 1),
      tdes4 = 0, tdes5 = 0, tdes6 = 0, tdes7 = 0\<rparr>"

definition initRxDmaDesc :: "Msp432e4Config \<Rightarrow> nat \<Rightarrow> Msp432e4RxDmaDesc" where
  "initRxDmaDesc cfg i =
     \<lparr>rdes0 = EMAC_RDES0_OWN,
      rdes1 = EMAC_RDES1_RCH OR (of_nat (MSP432E4_ETH_RX_BUFFER_SIZE cfg) AND EMAC_RDES1_RBS1),
      rdes2 = rxBufferAddr cfg i,
      rdes3 = rxDmaDescAddr cfg (i + 1),
      rdes4 = 0, rdes5 = 0, rdes6 = 0, rdes7 = 0\<rparr>"

definition msp432e4EthInitDmaDesc :: "Msp432e4Config \<Rightarrow> Msp432e4Eth \<Rightarrow> Msp432e4Eth" where
  "msp432e4EthInitDmaDesc cfg s =
     (let tn = MSP432E4_ETH_TX_BUFFER_COUNT cfg;
          tx = foldl (\<lambda>m i. m(txDmaDescAddr cfg i := initTxDmaDesc cfg i)) (txDmaDesc s) [0..<tn];
          tx = tx(txDmaDescAddr cfg (tn - 1) :=
                    (tx (txDmaDescAddr cfg (tn - 1)))\<lparr>tdes3 := txDmaDescAddr cfg 0\<rparr>);
          rn = MSP432E4_ETH_RX_BUFFER_COUNT cfg;
          rx = foldl (\<lambda>m i. m(rxDmaDescAddr cfg i := initRxDmaDesc cfg i)) (rxDmaDesc s) [0..<rn];
          rx = rx(rxDmaDescAddr cfg (rn - 1) :=
                    (rx (rxDmaDescAddr cfg (rn - 1)))\<lparr>rdes3 := rxDmaDescAddr cfg 0\<rparr>)
      in s\<lparr>txDmaDesc := tx,
            txCurDmaDesc := txDmaDescAddr cfg 0,
            rxDmaDesc := rx,
            rxCurDmaDesc := rxDmaDescAddr cfg 0,
            EMAC0 := (EMAC0 s)\<lparr>TXDLADDR := txDmaDescAddr cfg 0,
                                RXDLADDR := rxDmaDescAddr cfg 0\<rparr>\<rparr>)"


subsection \<open>Sending and receiving\<close>

text \<open>
  \<^verbatim>\<open>netBufferRead\<close> and \<^verbatim>\<open>nicProcessPacket\<close> belong to the stack. A multi-part buffer
  is its sequence of bytes; \<^verbatim>\<open>netBufferRead\<close> copies \<open>len\<close> bytes from \<open>offset\<close> on, as
  far as the buffer has them, to its destination: \<open>netBufferRead\<close> gives the bytes
  copied and \<open>storeBytes\<close> puts them into memory from the destination address on.
\<close>

definition netBufferRead :: "u8 list \<Rightarrow> nat \<Rightarrow> u32 \<Rightarrow> u8 list" where
  "netBufferRead buffer offset len = take (unat len) (drop offset buffer)"

definition storeBytes :: "u32 \<Rightarrow> u8 list \<Rightarrow> (u32 \<Rightarrow> u8) \<Rightarrow> (u32 \<Rightarrow> u8)" where
  "storeBytes dest bytes mem =
     foldl (\<lambda>m k. m(dest + of_nat k := bytes ! k)) mem [0..<length bytes]"

definition nicProcessPacket :: "u32 \<Rightarrow> u32 \<Rightarrow> Msp432e4Eth \<Rightarrow> Msp432e4Eth" where
  "nicProcessPacket packet len s = s\<lparr>processed := processed s @ [(packet, len)]\<rparr>"

definition osSetEvent_nicTxEvent :: "NetInterface \<Rightarrow> NetInterface" where
  "osSetEvent_nicTxEvent interface = interface\<lparr>nicTxEvent := True\<rparr>"

text \<open>
  \<^verbatim>\<open>msp432e4EthSendPacket\<close>. \<^verbatim>\<open>length\<close> is a \<^verbatim>\<open>size_t\<close> (32 bits): the subtraction of
  the offset wraps, and the comparison with the buffer size is unsigned.
\<close>

definition msp432e4EthSendPacket ::
    "Msp432e4Config \<Rightarrow> NetInterface \<Rightarrow> u8 list \<Rightarrow> nat \<Rightarrow> Msp432e4Eth \<Rightarrow>
     error_t \<times> NetInterface \<times> Msp432e4Eth" where
  "msp432e4EthSendPacket cfg interface buffer offset s =
     (let len = (of_nat (length buffer) - of_nat offset :: u32)
      in if unat len > MSP432E4_ETH_TX_BUFFER_SIZE cfg then
           (ERROR_INVALID_LENGTH, osSetEvent_nicTxEvent interface, s)
         else if tdes0 (txDmaDesc s (txCurDmaDesc s)) AND EMAC_TDES0_OWN \<noteq> 0 then
           (ERROR_FAILURE, interface, s)
         else
           let cur = txCurDmaDesc s;
               s = s\<lparr>bufferMem := storeBytes (tdes2 (txDmaDesc s cur))
                                      (netBufferRead buffer offset len) (bufferMem s)\<rparr>;
               d = txDmaDesc s cur;
               d = d\<lparr>tdes1 := len AND EMAC_TDES1_TBS1\<rparr>;
               d = d\<lparr>tdes0 := tdes0 d OR (EMAC_TDES0_LS OR EMAC_TDES0_FS)\<rparr>;
               d = d\<lparr>tdes0 := tdes0 d OR EMAC_TDES0_OWN\<rparr>;
               s = s\<lparr>txDmaDesc := (txDmaDesc s)(cur := d)\<rparr>;
               s = s\<lparr>EMAC0 := (EMAC0 s)\<lparr>DMARIS := EMAC_DMARIS_TU\<rparr>\<rparr>;
               s = s\<lparr>EMAC0 := (EMAC0 s)\<lparr>TXPOLLD := 0\<rparr>\<rparr>;
               s = s\<lparr>txCurDmaDesc := tdes3 (txDmaDesc s cur)\<rparr>
           in if tdes0 (txDmaDesc s (txCurDmaDesc s)) AND EMAC_TDES0_OWN = 0
              then (NO_ERROR, osSetEvent_nicTxEvent interface, s)
              else (NO_ERROR, interface, s))"

text \<open>\<^verbatim>\<open>msp432e4EthReceivePacket\<close>.\<close>

definition msp432e4EthReceivePacket ::
    "Msp432e4Config \<Rightarrow> Msp432e4Eth \<Rightarrow> error_t \<times> Msp432e4Eth" where
  "msp432e4EthReceivePacket cfg s =
     (let cur = rxCurDmaDesc s;
          (error, s) =
            (if rdes0 (rxDmaDesc s cur) AND EMAC_RDES0_OWN = 0 then
               let (error, s) =
                     (if rdes0 (rxDmaDesc s cur) AND EMAC_RDES0_FS \<noteq> 0 \<and>
                         rdes0 (rxDmaDesc s cur) AND EMAC_RDES0_LS \<noteq> 0 then
                        (if rdes0 (rxDmaDesc s cur) AND EMAC_RDES0_ES = 0 then
                           let n = drop_bit 16 (rdes0 (rxDmaDesc s cur) AND EMAC_RDES0_FL);
                               n = min n (of_nat (MSP432E4_ETH_RX_BUFFER_SIZE cfg))
                           in (NO_ERROR, nicProcessPacket (rdes2 (rxDmaDesc s cur)) n s)
                         else (ERROR_INVALID_PACKET, s))
                      else (ERROR_INVALID_PACKET, s));
                   s = s\<lparr>rxDmaDesc := (rxDmaDesc s)(cur := (rxDmaDesc s cur)\<lparr>rdes0 := EMAC_RDES0_OWN\<rparr>)\<rparr>;
                   s = s\<lparr>rxCurDmaDesc := rdes3 (rxDmaDesc s cur)\<rparr>
               in (error, s)
             else (ERROR_BUFFER_EMPTY, s));
          s = s\<lparr>EMAC0 := (EMAC0 s)\<lparr>DMARIS := EMAC_DMARIS_RU\<rparr>\<rparr>;
          s = s\<lparr>EMAC0 := (EMAC0 s)\<lparr>RXPOLLD := 0\<rparr>\<rparr>
      in (error, s))"


subsection \<open>MAC address filter\<close>

text \<open>
  \<^verbatim>\<open>msp432e4EthCalcCrc\<close>. The outer loop runs over the bytes, the inner loop over the
  bit positions \<open>j = 0, \<dots>, 7\<close> of a byte; \<open>crcUpdate\<close> is the body of the inner loop.
\<close>

definition crcUpdate :: "u8 \<Rightarrow> u32 \<Rightarrow> nat \<Rightarrow> u32" where
  "crcUpdate p crc j =
     (if (drop_bit 31 crc XOR ucast (drop_bit j p)) AND 0x01 \<noteq> 0
      then push_bit 1 crc XOR 0x04C11DB7
      else push_bit 1 crc)"

definition msp432e4EthCalcCrc :: "u8 list \<Rightarrow> u32" where
  "msp432e4EthCalcCrc data =
     NOT (foldl (\<lambda>crc p. foldl (crcUpdate p) crc [0..<8]) 0xFFFFFFFF data)"

text \<open>
  \<^verbatim>\<open>msp432e4EthUpdateMacAddrFilter\<close>. The loop over the entries of the address filter
  carries \<^verbatim>\<open>j\<close>, \<^verbatim>\<open>hashTable[2]\<close> and \<^verbatim>\<open>unicastMacAddr[3]\<close>; \<open>filterEntry\<close> is its
  body. \<open>hashIndex\<close> is the index \<^verbatim>\<open>k\<close> computed for a multicast address.
\<close>

definition hashIndex :: "MacAddr \<Rightarrow> nat" where
  "hashIndex a = unat (drop_bit 26 (msp432e4EthCalcCrc (macBytes a)) AND 0x3F)"

definition filterEntry ::
    "nat \<times> u32 list \<times> MacAddr list \<Rightarrow> MacFilterEntry \<Rightarrow> nat \<times> u32 list \<times> MacAddr list" where
  "filterEntry st entry =
     (case st of (j, hashTable, unicastMacAddr) \<Rightarrow>
        if refCount entry > 0 then
          (if macIsMulticastAddr (addr entry) then
             let k = hashIndex (addr entry)
             in (j, hashTable[k div 32 := hashTable ! (k div 32) OR push_bit (k mod 32) 1],
                 unicastMacAddr)
           else if j < 3 then (j + 1, hashTable, unicastMacAddr[j := addr entry])
           else (j, hashTable, unicastMacAddr))
        else (j, hashTable, unicastMacAddr))"

text \<open>The values of \<^verbatim>\<open>j\<close>, \<^verbatim>\<open>hashTable\<close> and \<^verbatim>\<open>unicastMacAddr\<close> before the loop.\<close>

definition filterInit :: "nat \<times> u32 list \<times> MacAddr list" where
  "filterInit = (0, [0, 0], [MAC_UNSPECIFIED_ADDR, MAC_UNSPECIFIED_ADDR, MAC_UNSPECIFIED_ADDR])"

definition msp432e4EthUpdateMacAddrFilter ::
    "NetInterface \<Rightarrow> Msp432e4Eth \<Rightarrow> error_t \<times> Msp432e4Eth" where
  "msp432e4EthUpdateMacAddrFilter interface s =
     (let r = EMAC0 s;
          r = r\<lparr>ADDR0L := macW0 (macAddr interface) OR push_bit 16 (macW1 (macAddr interface))\<rparr>;
          r = r\<lparr>ADDR0H := macW2 (macAddr interface)\<rparr>;
          (j, hashTable, unicastMacAddr) =
             foldl filterEntry filterInit (macAddrFilter interface);
          r = (if j \<ge> 1
               then r\<lparr>ADDR1L := macW0 (unicastMacAddr ! 0) OR push_bit 16 (macW1 (unicastMacAddr ! 0)),
                      ADDR1H := macW2 (unicastMacAddr ! 0) OR EMAC_ADDR1H_AE\<rparr>
               else r\<lparr>ADDR1L := 0, ADDR1H := 0\<rparr>);
          r = (if j \<ge> 2
               then r\<lparr>ADDR2L := macW0 (unicastMacAddr ! 1) OR push_bit 16 (macW1 (unicastMacAddr ! 1)),
                      ADDR2H := macW2 (unicastMacAddr ! 1) OR EMAC_ADDR2H_AE\<rparr>
               else r\<lparr>ADDR2L := 0, ADDR2H := 0\<rparr>);
          r = (if j \<ge> 3
               then r\<lparr>ADDR3L := macW0 (unicastMacAddr ! 2) OR push_bit 16 (macW1 (unicastMacAddr ! 2)),
                      ADDR3H := macW2 (unicastMacAddr ! 2) OR EMAC_ADDR3H_AE\<rparr>
               else r\<lparr>ADDR3L := 0, ADDR3H := 0\<rparr>);
          r = r\<lparr>HASHTBLL := hashTable ! 0\<rparr>;
          r = r\<lparr>HASHTBLH := hashTable ! 1\<rparr>
      in (NO_ERROR, s\<lparr>EMAC0 := r\<rparr>))"

text \<open>
  What the MAC does with the programmed registers, in the words of the specification:
  a perfect filter slot matches an address when its enable bit is set and its 48
  address bits are those of the address; the hash filter matches an address when the
  bit of the 64-entry table that the upper six bits of the CRC select is set, the low
  table register holding entries 0 to 31 and the high one entries 32 to 63.
\<close>

definition slotMatches :: "u32 \<Rightarrow> u32 \<Rightarrow> MacAddr \<Rightarrow> bool" where
  "slotMatches lo hi a \<longleftrightarrow>
     hi AND 0x80000000 \<noteq> 0 \<and> lo = (macW0 a OR push_bit 16 (macW1 a)) \<and>
     hi AND 0xFFFF = macW2 a"

definition perfectMatch :: "EMAC0_regs \<Rightarrow> MacAddr \<Rightarrow> bool" where
  "perfectMatch r a \<longleftrightarrow>
     slotMatches (ADDR1L r) (ADDR1H r) a \<or> slotMatches (ADDR2L r) (ADDR2H r) a \<or>
     slotMatches (ADDR3L r) (ADDR3H r) a"

definition hashBit :: "EMAC0_regs \<Rightarrow> nat \<Rightarrow> bool" where
  "hashBit r k \<longleftrightarrow> (if k < 32 then bit (HASHTBLL r) k else bit (HASHTBLH r) (k - 32))"

definition hashMatch :: "EMAC0_regs \<Rightarrow> MacAddr \<Rightarrow> bool" where
  "hashMatch r a \<longleftrightarrow> hashBit r (hashIndex a)"

text \<open>
  The CRC in the words of the specification: the message bits are shifted one by one
  into a 32-bit register that starts with all ones; a step shifts the register left by
  one and adds the generator polynomial \<open>0x04C11DB7\<close> (of degree 32, the leading
  coefficient being implicit) when the bit shifted out differs from the message bit;
  the result is the inverted register. The bits of a byte enter least significant
  first.
\<close>

definition crcShift :: "u32 \<Rightarrow> bool \<Rightarrow> u32" where
  "crcShift r b = (if bit r 31 \<noteq> b then push_bit 1 r XOR 0x04C11DB7 else push_bit 1 r)"

definition byteBits :: "u8 \<Rightarrow> bool list" where
  "byteBits p = map (bit p) [0..<8]"

definition crc32 :: "bool list \<Rightarrow> u32" where
  "crc32 bits = NOT (foldl crcShift 0xFFFFFFFF bits)"

definition activeMulticast :: "MacFilterEntry list \<Rightarrow> MacAddr list" where
  "activeMulticast es =
     map addr (filter (\<lambda>e. refCount e > 0 \<and> macIsMulticastAddr (addr e)) es)"

definition activeUnicast :: "MacFilterEntry list \<Rightarrow> MacAddr list" where
  "activeUnicast es =
     map addr (filter (\<lambda>e. refCount e > 0 \<and> \<not> macIsMulticastAddr (addr e)) es)"

subsection \<open>A configuration and a memory to run the driver on\<close>

text \<open>
  The default configuration of the driver (3 transmit and 6 receive buffers of 1536
  bytes) with the arrays at addresses of the on-chip SRAM, and a zeroed memory.
\<close>

definition msp432e4DefaultConfig :: Msp432e4Config where
  "msp432e4DefaultConfig =
     \<lparr>MSP432E4_ETH_TX_BUFFER_COUNT = 3, MSP432E4_ETH_TX_BUFFER_SIZE = 1536,
      MSP432E4_ETH_RX_BUFFER_COUNT = 6, MSP432E4_ETH_RX_BUFFER_SIZE = 1536,
      txDmaDescBase = 0x20000000, rxDmaDescBase = 0x20000100,
      txBufferBase = 0x20001000, rxBufferBase = 0x20003000\<rparr>"

definition msp432e4ZeroState :: Msp432e4Eth where
  "msp432e4ZeroState =
     \<lparr>txDmaDesc = (\<lambda>a. \<lparr>tdes0 = 0, tdes1 = 0, tdes2 = 0, tdes3 = 0,
                          tdes4 = 0, tdes5 = 0, tdes6 = 0, tdes7 = 0\<rparr>),
      rxDmaDesc = (\<lambda>a. \<lparr>rdes0 = 0, rdes1 = 0, rdes2 = 0, rdes3 = 0,
                          rdes4 = 0, rdes5 = 0, rdes6 = 0, rdes7 = 0\<rparr>),
      txCurDmaDesc = 0, rxCurDmaDesc = 0, bufferMem = (\<lambda>a. 0),
      EMAC0 = \<lparr>DMARIS = 0, TXPOLLD = 0, RXPOLLD = 0, TXDLADDR = 0, RXDLADDR = 0,
               ADDR0L = 0, ADDR0H = 0, ADDR1L = 0, ADDR1H = 0, ADDR2L = 0, ADDR2H = 0,
               ADDR3L = 0, ADDR3H = 0, HASHTBLL = 0, HASHTBLH = 0\<rparr>,
      processed = []\<rparr>"


section \<open>W5100S Ethernet controller\<close>

text \<open>
  The controller has one 16-bit address space of byte registers and buffer memory,
  reached over SPI; one call of a register or buffer access function is one transfer
  frame, which reads or writes consecutive addresses. The chip is modelled by the
  contents of this address space; what the chip itself changes between two calls of
  the driver is not part of a call.
\<close>

type_synonym W5100sChip = "u16 \<Rightarrow> u8"

definition W5100S_S0_CR :: u16 where
  "W5100S_S0_CR = 0x0401"

definition W5100S_S0_TXBUF_SIZE :: u16 where
  "W5100S_S0_TXBUF_SIZE = 0x041F"

definition W5100S_S0_TX_FSR0 :: u16 where
  "W5100S_S0_TX_FSR0 = 0x0420"

definition W5100S_S0_TX_WR0 :: u16 where
  "W5100S_S0_TX_WR0 = 0x0424"

definition W5100S_TX_BUFFER :: u32 where
  "W5100S_TX_BUFFER = 0x4000"

definition W5100S_Sn_CR_SEND :: u8 where
  "W5100S_Sn_CR_SEND = 0x20"

definition ETH_MAX_FRAME_SIZE :: nat where
  "ETH_MAX_FRAME_SIZE = 1518"

definition w5100sWriteReg8 :: "u16 \<Rightarrow> u8 \<Rightarrow> W5100sChip \<Rightarrow> W5100sChip" where
  "w5100sWriteReg8 address data chip = chip(address := data)"

definition w5100sReadReg8 :: "u16 \<Rightarrow> W5100sChip \<Rightarrow> u8" where
  "w5100sReadReg8 address chip = chip address"

definition w5100sWriteReg16 :: "u16 \<Rightarrow> u16 \<Rightarrow> W5100sChip \<Rightarrow> W5100sChip" where
  "w5100sWriteReg16 address data chip =
     chip(address := ucast (drop_bit 8 data), address + 1 := ucast data)"

definition w5100sReadReg16 :: "u16 \<Rightarrow> W5100sChip \<Rightarrow> u16" where
  "w5100sReadReg16 address chip =
     push_bit 8 (ucast (chip address)) OR ucast (chip (address + 1))"

text \<open>
  \<^verbatim>\<open>w5100sWriteBuffer\<close>: the loop sends \<^verbatim>\<open>data[0]\<close>, \<dots>, \<^verbatim>\<open>data[length - 1]\<close>.
\<close>

definition w5100sWriteBuffer :: "u16 \<Rightarrow> u8 list \<Rightarrow> u32 \<Rightarrow> W5100sChip \<Rightarrow> W5100sChip" where
  "w5100sWriteBuffer address data len chip =
     foldl (\<lambda>m i. m(address + of_nat i := data ! i)) chip [0..<unat len]"

text \<open>
  \<^verbatim>\<open>w5100sWriteData\<close>. \<^verbatim>\<open>size\<close>, \<^verbatim>\<open>p\<close> and \<^verbatim>\<open>offset\<close> are \<^verbatim>\<open>size_t\<close>; the
  address parameter of \<^verbatim>\<open>w5100sWriteBuffer\<close> and the data of \<^verbatim>\<open>w5100sWriteReg16\<close>
  are truncated to 16 bits.
\<close>

definition w5100sWriteData :: "u8 list \<Rightarrow> u32 \<Rightarrow> W5100sChip \<Rightarrow> W5100sChip" where
  "w5100sWriteData data len chip =
     (let size = (ucast (w5100sReadReg8 W5100S_S0_TXBUF_SIZE chip) :: u32) * 1024;
          p = (ucast (w5100sReadReg16 W5100S_S0_TX_WR0 chip) :: u32);
          offset = p AND (size - 1);
          chip =
            (if offset + len < size then
               w5100sWriteBuffer (ucast (W5100S_TX_BUFFER + offset)) data len chip
             else
               let chip = w5100sWriteBuffer (ucast (W5100S_TX_BUFFER + offset)) data
                            (size - offset) chip
               in w5100sWriteBuffer (ucast W5100S_TX_BUFFER) (drop (unat (size - offset)) data)
                    (offset + len - size) chip);
          chip = w5100sWriteReg16 W5100S_S0_TX_WR0 (ucast (p + len)) chip
      in w5100sWriteReg8 W5100S_S0_CR W5100S_Sn_CR_SEND chip)"

text \<open>
  \<^verbatim>\<open>w5100sSendPacket\<close>. \<open>temp\<close> is the static array of the function; the bytes copied
  from the buffer replace its first bytes. The free size \<^verbatim>\<open>n\<close> is a \<^verbatim>\<open>uint16_t\<close>,
  compared with the \<^verbatim>\<open>size_t\<close> length as an unsigned value.
\<close>

definition w5100sSendPacket ::
    "NetInterface \<Rightarrow> u8 list \<Rightarrow> nat \<Rightarrow> u8 list \<Rightarrow> W5100sChip \<Rightarrow>
     error_t \<times> NetInterface \<times> u8 list \<times> W5100sChip" where
  "w5100sSendPacket interface buffer offset temp chip =
     (let len = (of_nat (length buffer) - of_nat offset :: u32)
      in if unat len > ETH_MAX_FRAME_SIZE then
           (ERROR_INVALID_LENGTH, osSetEvent_nicTxEvent interface, temp, chip)
         else
           let n = w5100sReadReg16 W5100S_S0_TX_FSR0 chip
           in if unat n < unat len then (ERROR_FAILURE, interface, temp, chip)
              else
                let bytes = netBufferRead buffer offset len;
                    temp = bytes @ drop (length bytes) temp;
                    chip = w5100sWriteData temp len chip;
                    n = w5100sReadReg16 W5100S_S0_TX_FSR0 chip
                in if unat n \<ge> ETH_MAX_FRAME_SIZE
                   then (NO_ERROR, osSetEvent_nicTxEvent interface, temp, chip)
                   else (NO_ERROR, interface, temp, chip))"


section \<open>KSZ9477 Ethernet switch\<close>

subsection \<open>Register map\<close>

text \<open>
  Register addresses and bit fields of the KSZ9477, as the driver's header declares them
  and the data sheet of the switch gives them.
\<close>

definition KSZ9477_SWITCH_LUE_CTRL3 :: u16 where
  "KSZ9477_SWITCH_LUE_CTRL3 = 0x0313"

definition KSZ9477_TAIL_TAG_SRC_PORT :: u8 where
  "KSZ9477_TAIL_TAG_SRC_PORT = 0x07"

text \<open>\<^verbatim>\<open>sizeof(EthHeader)\<close>: destination (6), source (6), type (2), packed.\<close>

definition sizeof_EthHeader :: u32 where
  "sizeof_EthHeader = 14"

definition KSZ9477_ALU_TABLE_CTRL :: u16 where
  "KSZ9477_ALU_TABLE_CTRL = 0x0418"

definition KSZ9477_STATIC_MCAST_TABLE_CTRL :: u16 where
  "KSZ9477_STATIC_MCAST_TABLE_CTRL = 0x041C"

text \<open>
  The four entry registers are shared by the address lookup (ALU) table and the static
  address table: \<^verbatim>\<open>KSZ9477_ALU_TABLE_ENTRYn\<close> and \<^verbatim>\<open>KSZ9477_STATIC_TABLE_ENTRYn\<close>
  name the same address.
\<close>

definition KSZ9477_TABLE_ENTRY1 :: u16 where
  "KSZ9477_TABLE_ENTRY1 = 0x0420"

definition KSZ9477_TABLE_ENTRY2 :: u16 where
  "KSZ9477_TABLE_ENTRY2 = 0x0424"

definition KSZ9477_TABLE_ENTRY3 :: u16 where
  "KSZ9477_TABLE_ENTRY3 = 0x0428"

definition KSZ9477_TABLE_ENTRY4 :: u16 where
  "KSZ9477_TABLE_ENTRY4 = 0x042C"

definition KSZ9477_ALU_TABLE_CTRL_VALID_ENTRY_OR_SEARCH_END :: u32 where
  "KSZ9477_ALU_TABLE_CTRL_VALID_ENTRY_OR_SEARCH_END = 0x80000000"

definition KSZ9477_ALU_TABLE_CTRL_VALID :: u32 where
  "KSZ9477_ALU_TABLE_CTRL_VALID = 0x40000000"

definition KSZ9477_ALU_TABLE_CTRL_START_FINISH :: u32 where
  "KSZ9477_ALU_TABLE_CTRL_START_FINISH = 0x00000080"

definition KSZ9477_ALU_TABLE_CTRL_ACTION :: u32 where
  "KSZ9477_ALU_TABLE_CTRL_ACTION = 0x00000003"

definition KSZ9477_ALU_TABLE_CTRL_ACTION_SEARCH :: u32 where
  "KSZ9477_ALU_TABLE_CTRL_ACTION_SEARCH = 0x00000003"

definition KSZ9477_ALU_TABLE_ENTRY2_PORT_FORWARD :: u32 where
  "KSZ9477_ALU_TABLE_ENTRY2_PORT_FORWARD = 0x0000007F"

definition KSZ9477_STATIC_MCAST_TABLE_CTRL_TABLE_INDEX :: u32 where
  "KSZ9477_STATIC_MCAST_TABLE_CTRL_TABLE_INDEX = 0x003F0000"

definition KSZ9477_STATIC_MCAST_TABLE_CTRL_START_FINISH :: u32 where
  "KSZ9477_STATIC_MCAST_TABLE_CTRL_START_FINISH = 0x00000080"

definition KSZ9477_STATIC_MCAST_TABLE_CTRL_TABLE_SELECT :: u32 where
  "KSZ9477_STATIC_MCAST_TABLE_CTRL_TABLE_SELECT = 0x00000002"

definition KSZ9477_STATIC_MCAST_TABLE_CTRL_ACTION :: u32 where
  "KSZ9477_STATIC_MCAST_TABLE_CTRL_ACTION = 0x00000001"

definition KSZ9477_STATIC_TABLE_ENTRY1_VALID :: u32 where
  "KSZ9477_STATIC_TABLE_ENTRY1_VALID = 0x80000000"

definition KSZ9477_STATIC_TABLE_ENTRY2_OVERRIDE :: u32 where
  "KSZ9477_STATIC_TABLE_ENTRY2_OVERRIDE = 0x80000000"

definition KSZ9477_STATIC_TABLE_ENTRY2_PORT_FORWARD :: u32 where
  "KSZ9477_STATIC_TABLE_ENTRY2_PORT_FORWARD = 0x0000007F"

definition KSZ9477_PORT_MASK :: u32 where
  "KSZ9477_PORT_MASK = 0x7F"

definition KSZ9477_PORT6_MASK :: u32 where
  "KSZ9477_PORT6_MASK = 0x20"

definition SWITCH_CPU_PORT_MASK :: u32 where
  "SWITCH_CPU_PORT_MASK = 0x80000000"

definition KSZ9477_STATIC_MAC_TABLE_SIZE :: nat where
  "KSZ9477_STATIC_MAC_TABLE_SIZE = 16"


subsection \<open>The switch at the other end of the management interface\<close>

text \<open>
  Modelled from the spec: the switch chip itself, which the driver reaches through
  \<^verbatim>\<open>interface->spiDriver\<close> and which is hardware, not code. The model follows the
  protocol of section 4.4: a command written to the static-table control register with
  the start/finish bit set transfers the four entry registers to or from the indexed
  table slot, and the bit reads as set for \<open>latency\<close> further reads of the register;
  a search command written to the ALU control register places the search cursor on the
  first learned entry, the entry registers hold the entry under the cursor, the status
  bits tell a valid entry from the end of the search once the engine is ready, and
  reading the fourth entry register moves the cursor on. Writing zero stops the search.
  Registers of different widths are kept in separate banks; the driver accesses every
  register with one width only. \<open>written\<close> lists the 32-bit register writes the chip
  has received, most recent last.
\<close>

type_synonym table_entry = "u32 \<times> u32 \<times> u32 \<times> u32"

record Ksz9477Chip =
  written :: "(u16 \<times> u32) list"
  reg8 :: "u16 \<Rightarrow> u8"
  reg32 :: "u16 \<Rightarrow> u32"
  staticTable :: "nat \<Rightarrow> table_entry"
  staticBusy :: nat
  aluTable :: "table_entry list"
  aluSearching :: bool
  aluPos :: nat
  aluBusy :: nat
  latency :: nat

definition chipLoadEntry :: "table_entry \<Rightarrow> Ksz9477Chip \<Rightarrow> Ksz9477Chip" where
  "chipLoadEntry e c =
     (case e of (e1, e2, e3, e4) \<Rightarrow>
        c\<lparr>reg32 := (reg32 c)(KSZ9477_TABLE_ENTRY1 := e1, KSZ9477_TABLE_ENTRY2 := e2,
                               KSZ9477_TABLE_ENTRY3 := e3, KSZ9477_TABLE_ENTRY4 := e4)\<rparr>)"

definition chipEntryRegs :: "Ksz9477Chip \<Rightarrow> table_entry" where
  "chipEntryRegs c =
     (reg32 c KSZ9477_TABLE_ENTRY1, reg32 c KSZ9477_TABLE_ENTRY2,
      reg32 c KSZ9477_TABLE_ENTRY3, reg32 c KSZ9477_TABLE_ENTRY4)"

definition chipAluSeek :: "Ksz9477Chip \<Rightarrow> Ksz9477Chip" where
  "chipAluSeek c =
     (let c1 = (if aluPos c < length (aluTable c)
                then chipLoadEntry (aluTable c ! aluPos c) c else c)
      in c1\<lparr>aluBusy := latency c\<rparr>)"

definition chipWrite8 :: "u16 \<Rightarrow> u8 \<Rightarrow> Ksz9477Chip \<Rightarrow> Ksz9477Chip" where
  "chipWrite8 address data c = c\<lparr>reg8 := (reg8 c)(address := data)\<rparr>"

definition chipWrite32 :: "u16 \<Rightarrow> u32 \<Rightarrow> Ksz9477Chip \<Rightarrow> Ksz9477Chip" where
  "chipWrite32 address data c0 =
     (let c = c0\<lparr>written := written c0 @ [(address, data)]\<rparr>
      in if address = KSZ9477_STATIC_MCAST_TABLE_CTRL then
        (if data AND KSZ9477_STATIC_MCAST_TABLE_CTRL_START_FINISH \<noteq> 0 \<and>
            data AND KSZ9477_STATIC_MCAST_TABLE_CTRL_TABLE_SELECT = 0 then
           let idx = unat (drop_bit 16 (data AND KSZ9477_STATIC_MCAST_TABLE_CTRL_TABLE_INDEX));
               c1 = (if data AND KSZ9477_STATIC_MCAST_TABLE_CTRL_ACTION \<noteq> 0
                     then chipLoadEntry (staticTable c idx) c
                     else c\<lparr>staticTable := (staticTable c)(idx := chipEntryRegs c)\<rparr>)
           in c1\<lparr>reg32 := (reg32 c1)(KSZ9477_STATIC_MCAST_TABLE_CTRL := data),
                  staticBusy := latency c\<rparr>
         else c\<lparr>reg32 := (reg32 c)(KSZ9477_STATIC_MCAST_TABLE_CTRL := data)\<rparr>)
      else if address = KSZ9477_ALU_TABLE_CTRL then
        (if data AND KSZ9477_ALU_TABLE_CTRL_START_FINISH \<noteq> 0 \<and>
            data AND KSZ9477_ALU_TABLE_CTRL_ACTION = KSZ9477_ALU_TABLE_CTRL_ACTION_SEARCH then
           chipAluSeek (c\<lparr>reg32 := (reg32 c)(KSZ9477_ALU_TABLE_CTRL := data),
                           aluSearching := True, aluPos := 0\<rparr>)
         else c\<lparr>reg32 := (reg32 c)(KSZ9477_ALU_TABLE_CTRL := data),
                 aluSearching := False\<rparr>)
      else c\<lparr>reg32 := (reg32 c)(address := data)\<rparr>)"

definition chipRead32 :: "u16 \<Rightarrow> Ksz9477Chip \<Rightarrow> u32 \<times> Ksz9477Chip" where
  "chipRead32 address c =
     (if address = KSZ9477_STATIC_MCAST_TABLE_CTRL then
        (if 0 < staticBusy c
         then (reg32 c address OR KSZ9477_STATIC_MCAST_TABLE_CTRL_START_FINISH,
               c\<lparr>staticBusy := staticBusy c - 1\<rparr>)
         else (reg32 c address AND NOT KSZ9477_STATIC_MCAST_TABLE_CTRL_START_FINISH, c))
      else if address = KSZ9477_ALU_TABLE_CTRL then
        (let idle = reg32 c address AND
               NOT (KSZ9477_ALU_TABLE_CTRL_VALID_ENTRY_OR_SEARCH_END OR
                    KSZ9477_ALU_TABLE_CTRL_VALID)
         in if \<not> aluSearching c then (idle, c)
            else if 0 < aluBusy c then (idle, c\<lparr>aluBusy := aluBusy c - 1\<rparr>)
            else if aluPos c < length (aluTable c)
            then (idle OR KSZ9477_ALU_TABLE_CTRL_VALID_ENTRY_OR_SEARCH_END OR
                  KSZ9477_ALU_TABLE_CTRL_VALID, c)
            else (idle OR KSZ9477_ALU_TABLE_CTRL_VALID_ENTRY_OR_SEARCH_END, c))
      else if address = KSZ9477_TABLE_ENTRY4 \<and> aluSearching c \<and> aluBusy c = 0 \<and>
              aluPos c < length (aluTable c) then
        (reg32 c address, chipAluSeek (c\<lparr>aluPos := aluPos c + 1\<rparr>))
      else (reg32 c address, c))"


subsection \<open>Register access\<close>

text \<open>
  \<^verbatim>\<open>ksz9477WriteSwitchReg8\<close>, \<^verbatim>\<open>ksz9477WriteSwitchReg32\<close> and
  \<^verbatim>\<open>ksz9477ReadSwitchReg32\<close>. In SPI mode the chip-select, command and data
  transfers of one call are one register transaction of the chip. With no SPI driver
  (MDC/MDIO management) the functions do nothing and a read returns 0.
\<close>

definition ksz9477WriteSwitchReg8 ::
    "NetInterface \<Rightarrow> u16 \<Rightarrow> u8 \<Rightarrow> Ksz9477Chip \<Rightarrow> Ksz9477Chip" where
  "ksz9477WriteSwitchReg8 interface address data chip =
     (if spiDriver interface then chipWrite8 address data chip else chip)"

definition ksz9477WriteSwitchReg32 ::
    "NetInterface \<Rightarrow> u16 \<Rightarrow> u32 \<Rightarrow> Ksz9477Chip \<Rightarrow> Ksz9477Chip" where
  "ksz9477WriteSwitchReg32 interface address data chip =
     (if spiDriver interface then chipWrite32 address data chip else chip)"

definition ksz9477ReadSwitchReg32 ::
    "NetInterface \<Rightarrow> u16 \<Rightarrow> Ksz9477Chip \<Rightarrow> u32 \<times> Ksz9477Chip" where
  "ksz9477ReadSwitchReg32 interface address chip =
     (if spiDriver interface then chipRead32 address chip else (0, chip))"


subsection \<open>Static MAC table\<close>

text \<open>
  The command word that the static table functions build before they write it to the
  control register: the table index, the static address table selected, the action
  bit set for a read and cleared for a write, and the start bit.
\<close>

definition staticReadCommand :: "nat \<Rightarrow> u32" where
  "staticReadCommand index =
     (let value = push_bit 16 (of_nat index) AND KSZ9477_STATIC_MCAST_TABLE_CTRL_TABLE_INDEX;
          value = value AND NOT KSZ9477_STATIC_MCAST_TABLE_CTRL_TABLE_SELECT;
          value = value OR KSZ9477_STATIC_MCAST_TABLE_CTRL_ACTION;
          value = value OR KSZ9477_STATIC_MCAST_TABLE_CTRL_START_FINISH
      in value)"

definition staticWriteCommand :: "nat \<Rightarrow> u32" where
  "staticWriteCommand index =
     (let value = push_bit 16 (of_nat index) AND KSZ9477_STATIC_MCAST_TABLE_CTRL_TABLE_INDEX;
          value = value AND NOT KSZ9477_STATIC_MCAST_TABLE_CTRL_TABLE_SELECT;
          value = value AND NOT KSZ9477_STATIC_MCAST_TABLE_CTRL_ACTION;
          value = value OR KSZ9477_STATIC_MCAST_TABLE_CTRL_START_FINISH
      in value)"

text \<open>
  The loop \<^verbatim>\<open>do { value = ksz9477ReadSwitchReg32(...) } while((value & START_FINISH) != 0)\<close>
  that follows every command. It ends because the chip clears the bit after finitely
  many reads.
\<close>

function pollStartFinish :: "NetInterface \<Rightarrow> Ksz9477Chip \<Rightarrow> u32 \<times> Ksz9477Chip" where
  "pollStartFinish interface chip =
     (case ksz9477ReadSwitchReg32 interface KSZ9477_STATIC_MCAST_TABLE_CTRL chip of
        (value, chip') \<Rightarrow>
          if value AND KSZ9477_STATIC_MCAST_TABLE_CTRL_START_FINISH \<noteq> 0
          then pollStartFinish interface chip'
          else (value, chip'))"
  by pat_completeness auto
termination
proof (relation "measure (\<lambda>(interface, chip). staticBusy chip)", goal_cases)
  case 1
  show ?case by simp
next
  case 2
  have "(a AND NOT m) AND m = 0" for a m :: u32
    by (simp add: and.assoc)
  with 2 show ?case
    by (auto simp: ksz9477ReadSwitchReg32_def chipRead32_def split: if_splits)
qed

declare pollStartFinish.simps [simp del]

text \<open>\<^verbatim>\<open>ksz9477GetStaticFdbEntry\<close>. The entry is written only when the slot is valid.\<close>

definition ksz9477GetStaticFdbEntry ::
    "NetInterface \<Rightarrow> nat \<Rightarrow> SwitchFdbEntry \<Rightarrow> Ksz9477Chip \<Rightarrow>
     error_t \<times> SwitchFdbEntry \<times> Ksz9477Chip" where
  "ksz9477GetStaticFdbEntry interface index entry chip =
     (if index < KSZ9477_STATIC_MAC_TABLE_SIZE then
        let chip = ksz9477WriteSwitchReg32 interface KSZ9477_STATIC_MCAST_TABLE_CTRL
                     (staticReadCommand index) chip;
            (value, chip) = pollStartFinish interface chip;
            (value, chip) = ksz9477ReadSwitchReg32 interface KSZ9477_TABLE_ENTRY1 chip
        in if value AND KSZ9477_STATIC_TABLE_ENTRY1_VALID \<noteq> 0 then
             let (value, chip) = ksz9477ReadSwitchReg32 interface KSZ9477_TABLE_ENTRY2 chip;
                 entry = entry\<lparr>srcPort := 0\<rparr>;
                 entry = entry\<lparr>destPorts := value AND KSZ9477_STATIC_TABLE_ENTRY2_PORT_FORWARD\<rparr>;
                 entry = entry\<lparr>override := (value AND KSZ9477_STATIC_TABLE_ENTRY2_OVERRIDE \<noteq> 0)\<rparr>;
                 (value, chip) = ksz9477ReadSwitchReg32 interface KSZ9477_TABLE_ENTRY3 chip;
                 entry = entry\<lparr>fdbMacAddr := (fdbMacAddr entry)
                           \<lparr>b0 := ucast (drop_bit 8 value AND 0xFF), b1 := ucast (value AND 0xFF)\<rparr>\<rparr>;
                 (value, chip) = ksz9477ReadSwitchReg32 interface KSZ9477_TABLE_ENTRY4 chip;
                 entry = entry\<lparr>fdbMacAddr := (fdbMacAddr entry)
                           \<lparr>b2 := ucast (drop_bit 24 value AND 0xFF),
                            b3 := ucast (drop_bit 16 value AND 0xFF),
                            b4 := ucast (drop_bit 8 value AND 0xFF),
                            b5 := ucast (value AND 0xFF)\<rparr>\<rparr>
             in (NO_ERROR, entry, chip)
           else (ERROR_INVALID_ENTRY, entry, chip)
      else (ERROR_END_OF_TABLE, entry, chip))"

text \<open>
  \<^verbatim>\<open>ksz9477AddStaticFdbEntry\<close>. \<open>addStaticScan\<close> is the loop over the table, from index
  \<open>i\<close> on, with the current value of \<^verbatim>\<open>j\<close>: it ends at the first valid entry with the
  address sought (\<^verbatim>\<open>break\<close>) or at the end of the table. The local \<^verbatim>\<open>currentEntry\<close>
  is not initialised; every field of it is assigned by a successful read before it
  is used.
\<close>

function addStaticScan ::
    "NetInterface \<Rightarrow> MacAddr \<Rightarrow> nat \<Rightarrow> nat \<Rightarrow> SwitchFdbEntry \<Rightarrow> Ksz9477Chip \<Rightarrow>
     nat \<times> Ksz9477Chip" where
  "addStaticScan interface a i j currentEntry chip =
     (if i < KSZ9477_STATIC_MAC_TABLE_SIZE then
        (case ksz9477GetStaticFdbEntry interface i currentEntry chip of
           (error, currentEntry', chip') \<Rightarrow>
             if error = NO_ERROR then
               (if macCompAddr (fdbMacAddr currentEntry') a then (i, chip')
                else addStaticScan interface a (i + 1) j currentEntry' chip')
             else
               addStaticScan interface a (i + 1)
                 (if j = KSZ9477_STATIC_MAC_TABLE_SIZE then i else j) currentEntry' chip')
      else (j, chip))"
  by pat_completeness auto
termination
  by (relation "measure (\<lambda>(interface, a, i, j, currentEntry, chip).
        KSZ9477_STATIC_MAC_TABLE_SIZE - i)") auto

declare addStaticScan.simps [simp del]

definition uninitialisedEntry :: SwitchFdbEntry where
  "uninitialisedEntry =
     \<lparr>fdbMacAddr = MAC_UNSPECIFIED_ADDR, srcPort = 0, destPorts = 0, override = False\<rparr>"

definition ksz9477AddStaticFdbEntry ::
    "NetInterface \<Rightarrow> SwitchFdbEntry \<Rightarrow> Ksz9477Chip \<Rightarrow> error_t \<times> Ksz9477Chip" where
  "ksz9477AddStaticFdbEntry interface entry chip =
     (let (j, chip) = addStaticScan interface (fdbMacAddr entry) 0 KSZ9477_STATIC_MAC_TABLE_SIZE
                        uninitialisedEntry chip
      in if j < KSZ9477_STATIC_MAC_TABLE_SIZE then
           let chip = ksz9477WriteSwitchReg32 interface KSZ9477_TABLE_ENTRY1
                        KSZ9477_STATIC_TABLE_ENTRY1_VALID chip;
               value = (if destPorts entry = SWITCH_CPU_PORT_MASK then KSZ9477_PORT6_MASK
                        else destPorts entry AND KSZ9477_PORT_MASK);
               value = (if override entry then value OR KSZ9477_STATIC_TABLE_ENTRY2_OVERRIDE
                        else value);
               chip = ksz9477WriteSwitchReg32 interface KSZ9477_TABLE_ENTRY2 value chip;
               value = push_bit 8 (ucast (b0 (fdbMacAddr entry))) OR ucast (b1 (fdbMacAddr entry));
               chip = ksz9477WriteSwitchReg32 interface KSZ9477_TABLE_ENTRY3 value chip;
               value = push_bit 24 (ucast (b2 (fdbMacAddr entry))) OR
                       push_bit 16 (ucast (b3 (fdbMacAddr entry))) OR
                       push_bit 8 (ucast (b4 (fdbMacAddr entry))) OR
                       ucast (b5 (fdbMacAddr entry));
               chip = ksz9477WriteSwitchReg32 interface KSZ9477_TABLE_ENTRY4 value chip;
               chip = ksz9477WriteSwitchReg32 interface KSZ9477_STATIC_MCAST_TABLE_CTRL
                        (staticWriteCommand j) chip;
               (value, chip) = pollStartFinish interface chip
           in (NO_ERROR, chip)
         else (ERROR_TABLE_FULL, chip))"


subsection \<open>Dynamic MAC table\<close>

text \<open>
  The loop \<^verbatim>\<open>do { value = ksz9477ReadSwitchReg32(...) } while((value & VALID_ENTRY_OR_SEARCH_END) == 0)\<close>.
  Nothing bounds it: when the bit never reads as set the function does not return,
  which is the value \<open>None\<close>.
\<close>

partial_function (option) pollValidEntryOrSearchEnd ::
    "NetInterface \<Rightarrow> Ksz9477Chip \<Rightarrow> (u32 \<times> Ksz9477Chip) option" where
  "pollValidEntryOrSearchEnd interface chip =
     (case ksz9477ReadSwitchReg32 interface KSZ9477_ALU_TABLE_CTRL chip of
        (value, chip') \<Rightarrow>
          if value AND KSZ9477_ALU_TABLE_CTRL_VALID_ENTRY_OR_SEARCH_END = 0
          then pollValidEntryOrSearchEnd interface chip'
          else Some (value, chip'))"

text \<open>
  The \<^verbatim>\<open>switch\<close> on the forward-port field of the second entry register:
  \<^verbatim>\<open>KSZ9477_ALU_TABLE_ENTRY2_PORTn_FORWARD\<close> is bit \<open>n - 1\<close>, and \<^verbatim>\<open>KSZ9477_PORTn\<close> is \<open>n\<close>.
\<close>

definition aluSrcPort :: "u32 \<Rightarrow> u8" where
  "aluSrcPort value =
     (let v = value AND KSZ9477_ALU_TABLE_ENTRY2_PORT_FORWARD
      in if v = 0x01 then 1
         else if v = 0x02 then 2
         else if v = 0x04 then 3
         else if v = 0x08 then 4
         else if v = 0x10 then 5
         else if v = 0x20 then 6
         else if v = 0x40 then 7
         else 0)"

text \<open>\<^verbatim>\<open>ksz9477GetDynamicFdbEntry\<close>.\<close>

definition ksz9477GetDynamicFdbEntry ::
    "NetInterface \<Rightarrow> nat \<Rightarrow> SwitchFdbEntry \<Rightarrow> Ksz9477Chip \<Rightarrow>
     (error_t \<times> SwitchFdbEntry \<times> Ksz9477Chip) option" where
  "ksz9477GetDynamicFdbEntry interface index entry chip =
     (let chip =
            (if index = 0 then
               let chip = ksz9477WriteSwitchReg32 interface KSZ9477_ALU_TABLE_CTRL 0 chip
               in ksz9477WriteSwitchReg32 interface KSZ9477_ALU_TABLE_CTRL
                    (KSZ9477_ALU_TABLE_CTRL_START_FINISH OR KSZ9477_ALU_TABLE_CTRL_ACTION_SEARCH)
                    chip
             else chip)
      in case pollValidEntryOrSearchEnd interface chip of
           None \<Rightarrow> None
         | Some (value, chip) \<Rightarrow>
             if value AND KSZ9477_ALU_TABLE_CTRL_VALID \<noteq> 0 then
               let entry = entry\<lparr>destPorts := 0\<rparr>;
                   entry = entry\<lparr>override := False\<rparr>;
                   (value, chip) = ksz9477ReadSwitchReg32 interface KSZ9477_TABLE_ENTRY1 chip;
                   (value, chip) = ksz9477ReadSwitchReg32 interface KSZ9477_TABLE_ENTRY2 chip;
                   entry = entry\<lparr>srcPort := aluSrcPort value\<rparr>;
                   (value, chip) = ksz9477ReadSwitchReg32 interface KSZ9477_TABLE_ENTRY3 chip;
                   entry = entry\<lparr>fdbMacAddr := (fdbMacAddr entry)
                             \<lparr>b0 := ucast (drop_bit 8 value AND 0xFF), b1 := ucast (value AND 0xFF)\<rparr>\<rparr>;
                   (value, chip) = ksz9477ReadSwitchReg32 interface KSZ9477_TABLE_ENTRY4 chip;
                   entry = entry\<lparr>fdbMacAddr := (fdbMacAddr entry)
                             \<lparr>b2 := ucast (drop_bit 24 value AND 0xFF),
                              b3 := ucast (drop_bit 16 value AND 0xFF),
                              b4 := ucast (drop_bit 8 value AND 0xFF),
                              b5 := ucast (value AND 0xFF)\<rparr>\<rparr>
               in Some (NO_ERROR, entry, chip)
             else
               Some (ERROR_END_OF_TABLE, entry,
                     ksz9477WriteSwitchReg32 interface KSZ9477_ALU_TABLE_CTRL 0 chip))"


subsection \<open>Aging time\<close>

text \<open>
  \<^verbatim>\<open>ksz9477SetAgingTime\<close>. The parameter is a \<^verbatim>\<open>uint32_t\<close>; the addition wraps.
\<close>

definition agingPeriod :: "u32 \<Rightarrow> u32" where
  "agingPeriod agingTime = min ((agingTime + 3) div 4) 255"

definition ksz9477SetAgingTime ::
    "NetInterface \<Rightarrow> u32 \<Rightarrow> Ksz9477Chip \<Rightarrow> Ksz9477Chip" where
  "ksz9477SetAgingTime interface agingTime chip =
     ksz9477WriteSwitchReg8 interface KSZ9477_SWITCH_LUE_CTRL3
       (ucast (agingPeriod agingTime)) chip"


subsection \<open>Tail tag of received frames\<close>

text \<open>
  \<^verbatim>\<open>ksz9477UntagFrame\<close>. The frame is the memory \<open>mem\<close> from the address \<open>frame\<close>;
  the function updates \<^verbatim>\<open>*length\<close> and \<^verbatim>\<open>ancillary->port\<close> and never assigns
  \<^verbatim>\<open>*frame\<close>. The result is the status code with the values of \<^verbatim>\<open>*frame\<close>,
  \<^verbatim>\<open>*length\<close> and \<^verbatim>\<open>*ancillary\<close> on return. \<open>tagging\<close> is the compile-time switch
  \<^verbatim>\<open>ETH_PORT_TAGGING_SUPPORT == ENABLED\<close>; \<^verbatim>\<open>size_t\<close> has 32 bits.
\<close>

definition ksz9477UntagFrame ::
    "bool \<Rightarrow> NetInterface \<Rightarrow> (u32 \<Rightarrow> u8) \<Rightarrow> u32 \<Rightarrow> u32 \<Rightarrow> NetRxAncillary \<Rightarrow>
     error_t \<times> u32 \<times> u32 \<times> NetRxAncillary" where
  "ksz9477UntagFrame tagging interface mem frame len ancillary =
     (if tagging then
        (if spiDriver interface then
           (if len \<ge> sizeof_EthHeader + 1 then
              let tailTag = frame + len - 1
              in (NO_ERROR, frame, len - 1,
                  ancillary\<lparr>port := (mem tailTag AND KSZ9477_TAIL_TAG_SRC_PORT) + 1\<rparr>)
            else (ERROR_INVALID_LENGTH, frame, len, ancillary))
         else (NO_ERROR, frame, len, ancillary\<lparr>port := 0\<rparr>))
      else (NO_ERROR, frame, len, ancillary))"


subsection \<open>The static MAC table in the words of the specification\<close>

text \<open>
  The four-word record of a static table slot, in the words of the specification: the
  valid bit, the forward-port bitmap and the override bit, and the 48-bit address split
  across two words.
\<close>

definition slotValid :: "table_entry \<Rightarrow> bool" where
  "slotValid e \<longleftrightarrow> fst e AND KSZ9477_STATIC_TABLE_ENTRY1_VALID \<noteq> 0"

definition slotEntry :: "table_entry \<Rightarrow> SwitchFdbEntry" where
  "slotEntry e =
     (case e of (e1, e2, e3, e4) \<Rightarrow>
        \<lparr>fdbMacAddr =
           \<lparr>b0 = ucast (drop_bit 8 e3 AND 0xFF), b1 = ucast (e3 AND 0xFF),
            b2 = ucast (drop_bit 24 e4 AND 0xFF), b3 = ucast (drop_bit 16 e4 AND 0xFF),
            b4 = ucast (drop_bit 8 e4 AND 0xFF), b5 = ucast (e4 AND 0xFF)\<rparr>,
         srcPort = 0,
         destPorts = e2 AND KSZ9477_STATIC_TABLE_ENTRY2_PORT_FORWARD,
         override = (e2 AND KSZ9477_STATIC_TABLE_ENTRY2_OVERRIDE \<noteq> 0)\<rparr>)"

definition slotHolds :: "(nat \<Rightarrow> table_entry) \<Rightarrow> MacAddr \<Rightarrow> nat \<Rightarrow> bool" where
  "slotHolds T a k \<longleftrightarrow> slotValid (T k) \<and> macCompAddr (fdbMacAddr (slotEntry (T k))) a"

text \<open>
  The slot that the specification gives to a new entry: the first slot that already
  holds the address if there is one, otherwise the first free slot, if any.
\<close>

definition staticSlot :: "(nat \<Rightarrow> table_entry) \<Rightarrow> MacAddr \<Rightarrow> nat option" where
  "staticSlot T a =
     (case find (slotHolds T a) [0..<KSZ9477_STATIC_MAC_TABLE_SIZE] of
        Some k \<Rightarrow> Some k
      | None \<Rightarrow> find (\<lambda>k. \<not> slotValid (T k)) [0..<KSZ9477_STATIC_MAC_TABLE_SIZE])"

text \<open>
  The record that a successful add stores: the valid bit; the forward ports, where the
  port mask of the CPU port stands for port 6 and any other mask is cut to the seven
  ports of the switch, with the override bit; and the address.
\<close>

definition entryRecord :: "SwitchFdbEntry \<Rightarrow> table_entry" where
  "entryRecord entry =
     (KSZ9477_STATIC_TABLE_ENTRY1_VALID,
      (if destPorts entry = SWITCH_CPU_PORT_MASK then KSZ9477_PORT6_MASK
       else destPorts entry AND KSZ9477_PORT_MASK) OR
      (if override entry then KSZ9477_STATIC_TABLE_ENTRY2_OVERRIDE else 0),
      push_bit 8 (ucast (b0 (fdbMacAddr entry))) OR ucast (b1 (fdbMacAddr entry)),
      push_bit 24 (ucast (b2 (fdbMacAddr entry))) OR push_bit 16 (ucast (b3 (fdbMacAddr entry))) OR
      push_bit 8 (ucast (b4 (fdbMacAddr entry))) OR ucast (b5 (fdbMacAddr entry)))"

definition storedEntry :: "SwitchFdbEntry \<Rightarrow> SwitchFdbEntry" where
  "storedEntry entry =
     \<lparr>fdbMacAddr = fdbMacAddr entry, srcPort = 0,
      destPorts = (if destPorts entry = SWITCH_CPU_PORT_MASK then KSZ9477_PORT6_MASK
                   else destPorts entry AND KSZ9477_PORT_MASK),
      override = override entry\<rparr>"


subsection \<open>The dynamic MAC table in the words of the specification\<close>

text \<open>
  The entry that the driver decodes from the four entry registers of a learned address.
\<close>

definition learnedEntry :: "table_entry \<Rightarrow> SwitchFdbEntry" where
  "learnedEntry e =
     (case e of (e1, e2, e3, e4) \<Rightarrow>
        \<lparr>fdbMacAddr =
           \<lparr>b0 = ucast (drop_bit 8 e3 AND 0xFF), b1 = ucast (e3 AND 0xFF),
            b2 = ucast (drop_bit 24 e4 AND 0xFF), b3 = ucast (drop_bit 16 e4 AND 0xFF),
            b4 = ucast (drop_bit 8 e4 AND 0xFF), b5 = ucast (e4 AND 0xFF)\<rparr>,
         srcPort = aluSrcPort e2,
         destPorts = 0,
         override = False\<rparr>)"

text \<open>
  The control word of the address lookup table as the driver reads it during a search:
  the word without its two status bits, and the word with the status bits of a search
  that has stopped on an entry or at the end of the table.
\<close>

definition searchCommand :: u32 where
  "searchCommand = KSZ9477_ALU_TABLE_CTRL_START_FINISH OR KSZ9477_ALU_TABLE_CTRL_ACTION_SEARCH"

definition aluIdle :: "Ksz9477Chip \<Rightarrow> u32" where
  "aluIdle c = reg32 c KSZ9477_ALU_TABLE_CTRL AND
     NOT (KSZ9477_ALU_TABLE_CTRL_VALID_ENTRY_OR_SEARCH_END OR KSZ9477_ALU_TABLE_CTRL_VALID)"

definition aluStatus :: "Ksz9477Chip \<Rightarrow> u32" where
  "aluStatus c =
     (if aluPos c < length (aluTable c)
      then aluIdle c OR KSZ9477_ALU_TABLE_CTRL_VALID_ENTRY_OR_SEARCH_END OR
           KSZ9477_ALU_TABLE_CTRL_VALID
      else aluIdle c OR KSZ9477_ALU_TABLE_CTRL_VALID_ENTRY_OR_SEARCH_END)"


subsection \<open>Concrete inputs\<close>

definition exampleInterface :: NetInterface where
  "exampleInterface =
     \<lparr>macAddr = MAC_UNSPECIFIED_ADDR, macAddrFilter = [], nicTxEvent = False,
      spiDriver = True\<rparr>"

definition txBusyState :: Msp432e4Eth where
  "txBusyState =
     (let s = msp432e4EthInitDmaDesc msp432e4DefaultConfig msp432e4ZeroState
      in s\<lparr>txDmaDesc := (txDmaDesc s)(txCurDmaDesc s :=
                (txDmaDesc s (txCurDmaDesc s))\<lparr>tdes0 := 0xF0100000\<rparr>)\<rparr>)"

definition w5100sZeroChip :: W5100sChip where
  "w5100sZeroChip = (\<lambda>a. 0)"


definition hashExampleAddr :: MacAddr where
  "hashExampleAddr = \<lparr>b0 = 0x1F, b1 = 0x52, b2 = 0x41, b3 = 0x9C, b4 = 0xB6, b5 = 0xAF\<rparr>"

definition hashExampleInterface :: NetInterface where
  "hashExampleInterface =
     exampleInterface\<lparr>macAddrFilter := [\<lparr>addr = hashExampleAddr, refCount = 1\<rparr>]\<rparr>"

definition overflowInterface :: NetInterface where
  "overflowInterface =
     exampleInterface\<lparr>macAddrFilter :=
       [\<lparr>addr = \<lparr>b0 = 0x02, b1 = 0, b2 = 0, b3 = 0, b4 = 0, b5 = 0x01\<rparr>, refCount = 1\<rparr>,
        \<lparr>addr = \<lparr>b0 = 0x02, b1 = 0, b2 = 0, b3 = 0, b4 = 0, b5 = 0x02\<rparr>, refCount = 1\<rparr>,
        \<lparr>addr = \<lparr>b0 = 0x02, b1 = 0, b2 = 0, b3 = 0, b4 = 0, b5 = 0x03\<rparr>, refCount = 1\<rparr>,
        \<lparr>addr = \<lparr>b0 = 0x02, b1 = 0, b2 = 0, b3 = 0, b4 = 0, b5 = 0x04\<rparr>, refCount = 1\<rparr>]\<rparr>"

definition overflowAddr :: MacAddr where
  "overflowAddr = \<lparr>b0 = 0x02, b1 = 0, b2 = 0, b3 = 0, b4 = 0, b5 = 0x04\<rparr>"

definition ksz9477ResetChip :: Ksz9477Chip where
  "ksz9477ResetChip =
     \<lparr>written = [], reg8 = (\<lambda>a. 0), reg32 = (\<lambda>a. 0), staticTable = (\<lambda>k. (0, 0, 0, 0)),
      staticBusy = 0, aluTable = [], aluSearching = False, aluPos = 0, aluBusy = 0,
      latency = 2\<rparr>"

definition fullTableChip :: Ksz9477Chip where
  "fullTableChip =
     ksz9477ResetChip\<lparr>staticTable := (\<lambda>k. (KSZ9477_STATIC_TABLE_ENTRY1_VALID, 0x01, 0, of_nat k))\<rparr>"

definition cpuPortEntry :: SwitchFdbEntry where
  "cpuPortEntry =
     \<lparr>fdbMacAddr = \<lparr>b0 = 0x01, b1 = 0x00, b2 = 0x5E, b3 = 0x00, b4 = 0x00, b5 = 0x01\<rparr>,
      srcPort = 0, destPorts = SWITCH_CPU_PORT_MASK, override = False\<rparr>"

definition mdioInterface :: NetInterface where
  "mdioInterface = exampleInterface\<lparr>spiDriver := False\<rparr>"

definition learnedChip :: Ksz9477Chip where
  "learnedChip = ksz9477ResetChip\<lparr>aluTable := [(0, 0x01, 0x0011, 0x22334455)]\<rparr>"


section \<open>Theorems\<close>

subsection \<open>Descriptor rings of the MSP432E4 driver\<close>

lemma descAddr_inj:
  assumes "i < 2 ^ 27" "j < 2 ^ 27"
    and eq: "(base + 32 * of_nat i :: u32) = base + 32 * of_nat j"
  shows "i = j"
proof -
  from eq have "(of_nat (32 * i) :: u32) = of_nat (32 * j)"
    by simp
  then have "take_bit 32 (32 * i) = take_bit 32 (32 * j)"
    unfolding word_of_nat_eq_iff by simp
  moreover have "32 * i < 2 ^ 32" "32 * j < 2 ^ 32"
    using assms(1,2) by simp_all
  ultimately show ?thesis
    by (simp add: take_bit_nat_eq_self)
qed

lemma foldl_upd_get:
  assumes "inj_on f {..<n}" "i < n"
  shows "foldl (\<lambda>m k. m(f k := g k)) m0 [0..<n] (f i) = g i"
  using assms
proof (induction n)
  case 0
  then show ?case by simp
next
  case (Suc n)
  have inj: "inj_on f {..<n}"
    using Suc.prems(1) by (rule inj_on_subset) auto
  show ?case
  proof (cases "i = n")
    case True
    then show ?thesis by simp
  next
    case False
    with Suc.prems have "i < n" by simp
    moreover from this Suc.prems(1) have "f i \<noteq> f n"
      by (auto simp: inj_on_def)
    ultimately show ?thesis
      using Suc.IH [OF inj] by simp
  qed
qed

lemma txDmaDescAddr_inj:
  "i < 2 ^ 27 \<Longrightarrow> j < 2 ^ 27 \<Longrightarrow> txDmaDescAddr cfg i = txDmaDescAddr cfg j \<Longrightarrow> i = j"
  unfolding txDmaDescAddr_def by (rule descAddr_inj)

lemma rxDmaDescAddr_inj:
  "i < 2 ^ 27 \<Longrightarrow> j < 2 ^ 27 \<Longrightarrow> rxDmaDescAddr cfg i = rxDmaDescAddr cfg j \<Longrightarrow> i = j"
  unfolding rxDmaDescAddr_def by (rule descAddr_inj)

lemma init_txDmaDesc:
  assumes "i < MSP432E4_ETH_TX_BUFFER_COUNT cfg" "MSP432E4_ETH_TX_BUFFER_COUNT cfg \<le> 2 ^ 27"
  shows "txDmaDesc (msp432e4EthInitDmaDesc cfg s) (txDmaDescAddr cfg i) =
           (if i = MSP432E4_ETH_TX_BUFFER_COUNT cfg - 1
            then (initTxDmaDesc cfg i)\<lparr>tdes3 := txDmaDescAddr cfg 0\<rparr>
            else initTxDmaDesc cfg i)"
proof -
  let ?n = "MSP432E4_ETH_TX_BUFFER_COUNT cfg"
  have inj: "inj_on (txDmaDescAddr cfg) {..<?n}"
    using assms(2) by (auto simp: inj_on_def intro: txDmaDescAddr_inj [of _ _ cfg])
  have loop: "foldl (\<lambda>m k. m(txDmaDescAddr cfg k := initTxDmaDesc cfg k)) (txDmaDesc s) [0..<?n]
      (txDmaDescAddr cfg k) = initTxDmaDesc cfg k" if "k < ?n" for k
    using inj that by (rule foldl_upd_get)
  have last: "?n - 1 < ?n"
    using assms(1) by simp
  have "txDmaDescAddr cfg i \<noteq> txDmaDescAddr cfg (?n - 1)" if "i \<noteq> ?n - 1"
    using that inj assms(1) last by (auto simp: inj_on_def)
  then show ?thesis
    using loop [OF assms(1)] loop [OF last]
    by (simp add: msp432e4EthInitDmaDesc_def Let_def)
qed

lemma init_rxDmaDesc:
  assumes "i < MSP432E4_ETH_RX_BUFFER_COUNT cfg" "MSP432E4_ETH_RX_BUFFER_COUNT cfg \<le> 2 ^ 27"
  shows "rxDmaDesc (msp432e4EthInitDmaDesc cfg s) (rxDmaDescAddr cfg i) =
           (if i = MSP432E4_ETH_RX_BUFFER_COUNT cfg - 1
            then (initRxDmaDesc cfg i)\<lparr>rdes3 := rxDmaDescAddr cfg 0\<rparr>
            else initRxDmaDesc cfg i)"
proof -
  let ?n = "MSP432E4_ETH_RX_BUFFER_COUNT cfg"
  have inj: "inj_on (rxDmaDescAddr cfg) {..<?n}"
    using assms(2) by (auto simp: inj_on_def intro: rxDmaDescAddr_inj [of _ _ cfg])
  have loop: "foldl (\<lambda>m k. m(rxDmaDescAddr cfg k := initRxDmaDesc cfg k)) (rxDmaDesc s) [0..<?n]
      (rxDmaDescAddr cfg k) = initRxDmaDesc cfg k" if "k < ?n" for k
    using inj that by (rule foldl_upd_get)
  have last: "?n - 1 < ?n"
    using assms(1) by simp
  have "rxDmaDescAddr cfg i \<noteq> rxDmaDescAddr cfg (?n - 1)" if "i \<noteq> ?n - 1"
    using that inj assms(1) last by (auto simp: inj_on_def)
  then show ?thesis
    using loop [OF assms(1)] loop [OF last]
    by (simp add: msp432e4EthInitDmaDesc_def Let_def)
qed

text \<open>
  C1. After \<^verbatim>\<open>msp432e4EthInitDmaDesc\<close>, for ring sizes of at least 1 (and at most
  \<open>2 ^ 27\<close> descriptors of 32 bytes, so that a descriptor array lies within the 32-bit
  address space and its descriptors have distinct addresses): in both rings the
  next-descriptor word of descriptor \<open>i\<close> is the address of descriptor 0 exactly for
  the last descriptor; every transmit descriptor has the OWN bit clear and every
  receive descriptor has it set; both cursors point to descriptor 0.
\<close>

theorem C1_init_dma_desc:
  assumes "1 \<le> MSP432E4_ETH_TX_BUFFER_COUNT cfg" "MSP432E4_ETH_TX_BUFFER_COUNT cfg \<le> 2 ^ 27"
    and "1 \<le> MSP432E4_ETH_RX_BUFFER_COUNT cfg" "MSP432E4_ETH_RX_BUFFER_COUNT cfg \<le> 2 ^ 27"
  shows "(\<forall>i < MSP432E4_ETH_TX_BUFFER_COUNT cfg.
            (tdes3 (txDmaDesc (msp432e4EthInitDmaDesc cfg s) (txDmaDescAddr cfg i)) =
               txDmaDescAddr cfg 0 \<longleftrightarrow> i = MSP432E4_ETH_TX_BUFFER_COUNT cfg - 1) \<and>
            tdes0 (txDmaDesc (msp432e4EthInitDmaDesc cfg s) (txDmaDescAddr cfg i)) AND
               EMAC_TDES0_OWN = 0) \<and>
         (\<forall>i < MSP432E4_ETH_RX_BUFFER_COUNT cfg.
            (rdes3 (rxDmaDesc (msp432e4EthInitDmaDesc cfg s) (rxDmaDescAddr cfg i)) =
               rxDmaDescAddr cfg 0 \<longleftrightarrow> i = MSP432E4_ETH_RX_BUFFER_COUNT cfg - 1) \<and>
            rdes0 (rxDmaDesc (msp432e4EthInitDmaDesc cfg s) (rxDmaDescAddr cfg i)) AND
               EMAC_RDES0_OWN \<noteq> 0) \<and>
         txCurDmaDesc (msp432e4EthInitDmaDesc cfg s) = txDmaDescAddr cfg 0 \<and>
         rxCurDmaDesc (msp432e4EthInitDmaDesc cfg s) = rxDmaDescAddr cfg 0"
proof -
  have tx_link: "txDmaDescAddr cfg (i + 1) \<noteq> txDmaDescAddr cfg 0"
    if "i < MSP432E4_ETH_TX_BUFFER_COUNT cfg" "i \<noteq> MSP432E4_ETH_TX_BUFFER_COUNT cfg - 1" for i
  proof
    assume "txDmaDescAddr cfg (i + 1) = txDmaDescAddr cfg 0"
    moreover have "i + 1 < 2 ^ 27" using that assms(2) by simp
    ultimately have "i + 1 = 0" by (intro txDmaDescAddr_inj [of _ _ cfg]) simp_all
    then show False by simp
  qed
  have rx_link: "rxDmaDescAddr cfg (i + 1) \<noteq> rxDmaDescAddr cfg 0"
    if "i < MSP432E4_ETH_RX_BUFFER_COUNT cfg" "i \<noteq> MSP432E4_ETH_RX_BUFFER_COUNT cfg - 1" for i
  proof
    assume "rxDmaDescAddr cfg (i + 1) = rxDmaDescAddr cfg 0"
    moreover have "i + 1 < 2 ^ 27" using that assms(4) by simp
    ultimately have "i + 1 = 0" by (intro rxDmaDescAddr_inj [of _ _ cfg]) simp_all
    then show False by simp
  qed
  have tx: "(tdes3 (txDmaDesc (msp432e4EthInitDmaDesc cfg s) (txDmaDescAddr cfg i)) =
               txDmaDescAddr cfg 0 \<longleftrightarrow> i = MSP432E4_ETH_TX_BUFFER_COUNT cfg - 1) \<and>
            tdes0 (txDmaDesc (msp432e4EthInitDmaDesc cfg s) (txDmaDescAddr cfg i)) AND
               EMAC_TDES0_OWN = 0"
    if "i < MSP432E4_ETH_TX_BUFFER_COUNT cfg" for i
    using that tx_link [OF that] assms(2)
    by (simp add: init_txDmaDesc initTxDmaDesc_def EMAC_TDES0_OWN_def EMAC_TDES0_IC_def
        EMAC_TDES0_TCH_def)
  have rx: "(rdes3 (rxDmaDesc (msp432e4EthInitDmaDesc cfg s) (rxDmaDescAddr cfg i)) =
               rxDmaDescAddr cfg 0 \<longleftrightarrow> i = MSP432E4_ETH_RX_BUFFER_COUNT cfg - 1) \<and>
            rdes0 (rxDmaDesc (msp432e4EthInitDmaDesc cfg s) (rxDmaDescAddr cfg i)) AND
               EMAC_RDES0_OWN \<noteq> 0"
    if "i < MSP432E4_ETH_RX_BUFFER_COUNT cfg" for i
    using that rx_link [OF that] assms(4)
    by (simp add: init_rxDmaDesc initRxDmaDesc_def EMAC_RDES0_OWN_def)
  have cur: "txCurDmaDesc (msp432e4EthInitDmaDesc cfg s) = txDmaDescAddr cfg 0 \<and>
         rxCurDmaDesc (msp432e4EthInitDmaDesc cfg s) = rxDmaDescAddr cfg 0"
    by (simp add: msp432e4EthInitDmaDesc_def Let_def)
  from tx rx cur show ?thesis by blast
qed

theorem C1_init_dma_desc_witness:
  "tdes3 (txDmaDesc (msp432e4EthInitDmaDesc msp432e4DefaultConfig msp432e4ZeroState)
      (txDmaDescAddr msp432e4DefaultConfig 2)) = 0x20000000 \<and>
   tdes3 (txDmaDesc (msp432e4EthInitDmaDesc msp432e4DefaultConfig msp432e4ZeroState)
      (txDmaDescAddr msp432e4DefaultConfig 0)) \<noteq> 0x20000000 \<and>
   tdes0 (txDmaDesc (msp432e4EthInitDmaDesc msp432e4DefaultConfig msp432e4ZeroState)
      (txDmaDescAddr msp432e4DefaultConfig 0)) AND EMAC_TDES0_OWN = 0 \<and>
   rdes3 (rxDmaDesc (msp432e4EthInitDmaDesc msp432e4DefaultConfig msp432e4ZeroState)
      (rxDmaDescAddr msp432e4DefaultConfig 5)) = 0x20000100 \<and>
   rdes3 (rxDmaDesc (msp432e4EthInitDmaDesc msp432e4DefaultConfig msp432e4ZeroState)
      (rxDmaDescAddr msp432e4DefaultConfig 4)) \<noteq> 0x20000100 \<and>
   rdes0 (rxDmaDesc (msp432e4EthInitDmaDesc msp432e4DefaultConfig msp432e4ZeroState)
      (rxDmaDescAddr msp432e4DefaultConfig 4)) AND EMAC_RDES0_OWN \<noteq> 0"
proof -
  let ?c = msp432e4DefaultConfig
  have c: "1 \<le> MSP432E4_ETH_TX_BUFFER_COUNT ?c" "MSP432E4_ETH_TX_BUFFER_COUNT ?c \<le> 2 ^ 27"
    "1 \<le> MSP432E4_ETH_RX_BUFFER_COUNT ?c" "MSP432E4_ETH_RX_BUFFER_COUNT ?c \<le> 2 ^ 27"
    by (simp_all add: msp432e4DefaultConfig_def)
  note t = C1_init_dma_desc [OF c, of msp432e4ZeroState]
  have n: "MSP432E4_ETH_TX_BUFFER_COUNT ?c = 3" "MSP432E4_ETH_RX_BUFFER_COUNT ?c = 6"
    "txDmaDescAddr ?c 0 = 0x20000000" "rxDmaDescAddr ?c 0 = 0x20000100"
    by (simp_all add: msp432e4DefaultConfig_def txDmaDescAddr_def rxDmaDescAddr_def)
  from t have tx: "(tdes3 (txDmaDesc (msp432e4EthInitDmaDesc ?c msp432e4ZeroState)
        (txDmaDescAddr ?c i)) = 0x20000000 \<longleftrightarrow> i = 2) \<and>
      tdes0 (txDmaDesc (msp432e4EthInitDmaDesc ?c msp432e4ZeroState)
        (txDmaDescAddr ?c i)) AND EMAC_TDES0_OWN = 0" if "i < 3" for i
    using that unfolding n by simp
  from t have rx: "(rdes3 (rxDmaDesc (msp432e4EthInitDmaDesc ?c msp432e4ZeroState)
        (rxDmaDescAddr ?c i)) = 0x20000100 \<longleftrightarrow> i = 5) \<and>
      rdes0 (rxDmaDesc (msp432e4EthInitDmaDesc ?c msp432e4ZeroState)
        (rxDmaDescAddr ?c i)) AND EMAC_RDES0_OWN \<noteq> 0" if "i < 6" for i
    using that unfolding n by simp
  from tx [of 2] tx [of 0] rx [of 5] rx [of 4] show ?thesis
    by simp
qed

lemma receive_empty:
  assumes "rdes0 (rxDmaDesc s (rxCurDmaDesc s)) AND EMAC_RDES0_OWN \<noteq> 0"
  shows "msp432e4EthReceivePacket cfg s =
           (ERROR_BUFFER_EMPTY,
            s\<lparr>EMAC0 := (EMAC0 s)\<lparr>DMARIS := EMAC_DMARIS_RU, RXPOLLD := 0\<rparr>\<rparr>)"
  using assms by (simp add: msp432e4EthReceivePacket_def Let_def)

text \<open>
  C4. When every receive descriptor of the ring is owned by the DMA (and the cursor
  points into the ring), \<^verbatim>\<open>msp432e4EthReceivePacket\<close> returns \<open>ERROR_BUFFER_EMPTY\<close>,
  leaves the receive cursor where it was and changes no descriptor (nor the transmit
  side, the buffers or the frames handed to the stack): it only writes the two
  registers that resume the DMA.
\<close>

theorem C4_receive_all_hardware_owned:
  assumes "\<forall>i < MSP432E4_ETH_RX_BUFFER_COUNT cfg.
             rdes0 (rxDmaDesc s (rxDmaDescAddr cfg i)) AND EMAC_RDES0_OWN \<noteq> 0"
    and "\<exists>i < MSP432E4_ETH_RX_BUFFER_COUNT cfg. rxCurDmaDesc s = rxDmaDescAddr cfg i"
  shows "fst (msp432e4EthReceivePacket cfg s) = ERROR_BUFFER_EMPTY \<and>
         rxCurDmaDesc (snd (msp432e4EthReceivePacket cfg s)) = rxCurDmaDesc s \<and>
         rxDmaDesc (snd (msp432e4EthReceivePacket cfg s)) = rxDmaDesc s \<and>
         txDmaDesc (snd (msp432e4EthReceivePacket cfg s)) = txDmaDesc s \<and>
         txCurDmaDesc (snd (msp432e4EthReceivePacket cfg s)) = txCurDmaDesc s \<and>
         bufferMem (snd (msp432e4EthReceivePacket cfg s)) = bufferMem s \<and>
         processed (snd (msp432e4EthReceivePacket cfg s)) = processed s"
proof -
  from assms have "rdes0 (rxDmaDesc s (rxCurDmaDesc s)) AND EMAC_RDES0_OWN \<noteq> 0"
    by auto
  then show ?thesis
    by (simp add: receive_empty)
qed

theorem C4_receive_all_hardware_owned_witness:
  "fst (msp432e4EthReceivePacket msp432e4DefaultConfig
          (msp432e4EthInitDmaDesc msp432e4DefaultConfig msp432e4ZeroState)) = ERROR_BUFFER_EMPTY \<and>
   rxCurDmaDesc (snd (msp432e4EthReceivePacket msp432e4DefaultConfig
          (msp432e4EthInitDmaDesc msp432e4DefaultConfig msp432e4ZeroState))) = 0x20000100 \<and>
   rxDmaDesc (snd (msp432e4EthReceivePacket msp432e4DefaultConfig
          (msp432e4EthInitDmaDesc msp432e4DefaultConfig msp432e4ZeroState))) =
     rxDmaDesc (msp432e4EthInitDmaDesc msp432e4DefaultConfig msp432e4ZeroState)"
proof -
  let ?c = msp432e4DefaultConfig
  let ?s = "msp432e4EthInitDmaDesc msp432e4DefaultConfig msp432e4ZeroState"
  have n: "MSP432E4_ETH_RX_BUFFER_COUNT ?c = 6"
    by (simp add: msp432e4DefaultConfig_def)
  have own: "\<forall>i < MSP432E4_ETH_RX_BUFFER_COUNT ?c.
      rdes0 (rxDmaDesc ?s (rxDmaDescAddr ?c i)) AND EMAC_RDES0_OWN \<noteq> 0"
    by (simp add: init_rxDmaDesc n initRxDmaDesc_def EMAC_RDES0_OWN_def)
  have cur: "\<exists>i < MSP432E4_ETH_RX_BUFFER_COUNT ?c. rxCurDmaDesc ?s = rxDmaDescAddr ?c i"
    unfolding n by (rule exI [of _ 0]) (simp add: msp432e4EthInitDmaDesc_def Let_def)
  have "rxCurDmaDesc ?s = 0x20000100"
    by (simp add: msp432e4EthInitDmaDesc_def Let_def rxDmaDescAddr_def msp432e4DefaultConfig_def)
  then show ?thesis
    using C4_receive_all_hardware_owned [OF own cur] by simp
qed

text \<open>
  C3. Whenever the current receive descriptor is owned by software,
  \<^verbatim>\<open>msp432e4EthReceivePacket\<close> gives it back to the DMA (its first word becomes the
  OWN bit, its other words and all other descriptors are untouched) and moves the
  cursor to the descriptor's next-descriptor address, on every path: the status is
  \<open>NO_ERROR\<close> when the first-segment and last-segment flags are set and the error
  summary is clear, and \<open>ERROR_INVALID_PACKET\<close> otherwise, and re-arming and
  advancing do not depend on it.
\<close>

theorem C3_receive_rearms_and_advances:
  assumes "rdes0 (rxDmaDesc s (rxCurDmaDesc s)) AND EMAC_RDES0_OWN = 0"
  shows "rxDmaDesc (snd (msp432e4EthReceivePacket cfg s)) (rxCurDmaDesc s) =
           (rxDmaDesc s (rxCurDmaDesc s))\<lparr>rdes0 := EMAC_RDES0_OWN\<rparr> \<and>
         rdes0 (rxDmaDesc (snd (msp432e4EthReceivePacket cfg s)) (rxCurDmaDesc s)) AND
           EMAC_RDES0_OWN \<noteq> 0 \<and>
         rxCurDmaDesc (snd (msp432e4EthReceivePacket cfg s)) =
           rdes3 (rxDmaDesc s (rxCurDmaDesc s)) \<and>
         (\<forall>a. a \<noteq> rxCurDmaDesc s \<longrightarrow>
            rxDmaDesc (snd (msp432e4EthReceivePacket cfg s)) a = rxDmaDesc s a) \<and>
         fst (msp432e4EthReceivePacket cfg s) =
           (if rdes0 (rxDmaDesc s (rxCurDmaDesc s)) AND EMAC_RDES0_FS \<noteq> 0 \<and>
               rdes0 (rxDmaDesc s (rxCurDmaDesc s)) AND EMAC_RDES0_LS \<noteq> 0 \<and>
               rdes0 (rxDmaDesc s (rxCurDmaDesc s)) AND EMAC_RDES0_ES = 0
            then NO_ERROR else ERROR_INVALID_PACKET)"
  using assms
  by (simp add: msp432e4EthReceivePacket_def Let_def nicProcessPacket_def EMAC_RDES0_OWN_def)

theorem C3_receive_rearms_and_advances_witness:
  "fst (msp432e4EthReceivePacket msp432e4DefaultConfig
          (msp432e4ZeroState\<lparr>rxCurDmaDesc := 0x20000100,
             rxDmaDesc := (\<lambda>a. \<lparr>rdes0 = 0x00008300, rdes1 = 0x4600, rdes2 = 0x20003000,
                rdes3 = 0x20000120, rdes4 = 0, rdes5 = 0, rdes6 = 0, rdes7 = 0\<rparr>)\<rparr>)) =
     ERROR_INVALID_PACKET \<and>
   rdes0 (rxDmaDesc (snd (msp432e4EthReceivePacket msp432e4DefaultConfig
          (msp432e4ZeroState\<lparr>rxCurDmaDesc := 0x20000100,
             rxDmaDesc := (\<lambda>a. \<lparr>rdes0 = 0x00008300, rdes1 = 0x4600, rdes2 = 0x20003000,
                rdes3 = 0x20000120, rdes4 = 0, rdes5 = 0, rdes6 = 0, rdes7 = 0\<rparr>)\<rparr>)))
      0x20000100) = 0x80000000 \<and>
   rxCurDmaDesc (snd (msp432e4EthReceivePacket msp432e4DefaultConfig
          (msp432e4ZeroState\<lparr>rxCurDmaDesc := 0x20000100,
             rxDmaDesc := (\<lambda>a. \<lparr>rdes0 = 0x00008300, rdes1 = 0x4600, rdes2 = 0x20003000,
                rdes3 = 0x20000120, rdes4 = 0, rdes5 = 0, rdes6 = 0, rdes7 = 0\<rparr>)\<rparr>))) =
     0x20000120"
  using C3_receive_rearms_and_advances [of
      "msp432e4ZeroState\<lparr>rxCurDmaDesc := 0x20000100,
             rxDmaDesc := (\<lambda>a. \<lparr>rdes0 = 0x00008300, rdes1 = 0x4600, rdes2 = 0x20003000,
                rdes3 = 0x20000120, rdes4 = 0, rdes5 = 0, rdes6 = 0, rdes7 = 0\<rparr>)\<rparr>"
      msp432e4DefaultConfig]
  by (simp add: msp432e4ZeroState_def EMAC_RDES0_OWN_def EMAC_RDES0_ES_def)


subsection \<open>Aging time\<close>

lemma agingPeriod_exact:
  assumes "unat agingTime \<le> 2 ^ 32 - 4"
  shows "unat (agingPeriod agingTime) = min ((unat agingTime + 3) div 4) 255"
proof -
  have "unat (agingTime + 3) = unat agingTime + 3"
    using assms by (simp add: unat_word_ariths)
  then have "unat ((agingTime + 3) div 4) = (unat agingTime + 3) div 4"
    by (simp add: unat_div)
  then show ?thesis
    by (simp add: agingPeriod_def min_def word_le_nat_alt)
qed

text \<open>
  C9. Aging time to aging period: the written value should be
  \<open>min ((agingTime + 3) div 4) 255\<close> in exact integer arithmetic. For the
  aging time \<open>2 ^ 32 - 1\<close> that is 255, but the 32-bit addition wraps and the driver
  writes 0 to the Switch Lookup Engine Control 3 register.
\<close>

theorem C9_aging_time_wraps:
  "reg8 (ksz9477SetAgingTime (interface\<lparr>spiDriver := True\<rparr>) 4294967295 chip)
     KSZ9477_SWITCH_LUE_CTRL3 = 0 \<and>
   min ((4294967295 + 3) div 4) (255 :: nat) = 255"
  by (simp add: ksz9477SetAgingTime_def ksz9477WriteSwitchReg8_def chipWrite8_def
      agingPeriod_def)

subsection \<open>Tail tag\<close>

text \<open>
  C10. With port tagging compiled in and the switch on SPI, a received frame of at
  least \<open>sizeof(EthHeader) + 1 = 15\<close> bytes loses exactly one byte, and the source port
  becomes the last frame byte masked by the source-port field, plus one (at most 8, so
  the 8-bit port does not wrap); a shorter frame is refused with
  \<open>ERROR_INVALID_LENGTH\<close> and the frame pointer, the length and the ancillary data are
  returned as they were.
\<close>

theorem C10_untag_frame:
  assumes "spiDriver interface"
  shows "(15 \<le> unat len \<longrightarrow>
            ksz9477UntagFrame True interface mem frame len ancillary =
              (NO_ERROR, frame, len - 1,
               ancillary\<lparr>port := (mem (frame + len - 1) AND KSZ9477_TAIL_TAG_SRC_PORT) + 1\<rparr>) \<and>
            unat (len - 1) = unat len - 1 \<and>
            unat ((mem (frame + len - 1) AND KSZ9477_TAIL_TAG_SRC_PORT) + 1) =
              unat (mem (frame + len - 1) AND KSZ9477_TAIL_TAG_SRC_PORT) + 1) \<and>
         (unat len < 15 \<longrightarrow>
            ksz9477UntagFrame True interface mem frame len ancillary =
              (ERROR_INVALID_LENGTH, frame, len, ancillary))"
proof -
  have le: "sizeof_EthHeader + 1 \<le> len \<longleftrightarrow> 15 \<le> unat len"
    by (simp add: sizeof_EthHeader_def word_le_nat_alt)
  have "unat (mem (frame + len - 1) AND KSZ9477_TAIL_TAG_SRC_PORT) \<le> unat (7 :: u8)"
    unfolding KSZ9477_TAIL_TAG_SRC_PORT_def
    by (rule word_and_le1 [THEN word_le_nat_alt [THEN iffD1]])
  then have port: "unat ((mem (frame + len - 1) AND KSZ9477_TAIL_TAG_SRC_PORT) + 1) =
      unat (mem (frame + len - 1) AND KSZ9477_TAIL_TAG_SRC_PORT) + 1"
    by (simp add: unat_word_ariths)
  have dec: "15 \<le> unat len \<Longrightarrow> unat (len - 1) = unat len - 1"
    by (subst unat_minus_one) auto
  show ?thesis
    using assms le port dec
    by (auto simp add: ksz9477UntagFrame_def Let_def)
qed

theorem C10_untag_frame_witness:
  "ksz9477UntagFrame True \<lparr>macAddr = MAC_UNSPECIFIED_ADDR, macAddrFilter = [],
       nicTxEvent = False, spiDriver = True\<rparr> (\<lambda>a. if a = 0x2000000F then 0x0A else 0)
       0x20000000 16 \<lparr>port = 0\<rparr> =
     (NO_ERROR, 0x20000000, 15, \<lparr>port = 3\<rparr>) \<and>
   ksz9477UntagFrame True \<lparr>macAddr = MAC_UNSPECIFIED_ADDR, macAddrFilter = [],
       nicTxEvent = False, spiDriver = True\<rparr> (\<lambda>a. 0) 0x20000000 14 \<lparr>port = 0\<rparr> =
     (ERROR_INVALID_LENGTH, 0x20000000, 14, \<lparr>port = 0\<rparr>)"
  using C10_untag_frame [of "\<lparr>macAddr = MAC_UNSPECIFIED_ADDR, macAddrFilter = [],
       nicTxEvent = False, spiDriver = True\<rparr>" 16 "\<lambda>a. if a = 0x2000000F then 0x0A else 0"
       "0x20000000" "\<lparr>port = 0\<rparr>"]
    C10_untag_frame [of "\<lparr>macAddr = MAC_UNSPECIFIED_ADDR, macAddrFilter = [],
       nicTxEvent = False, spiDriver = True\<rparr>" 14 "\<lambda>a. 0" "0x20000000" "\<lparr>port = 0\<rparr>"]
  by (simp add: KSZ9477_TAIL_TAG_SRC_PORT_def)

subsection \<open>Error returns of the send operations\<close>

lemma send_invalid_length:
  assumes "MSP432E4_ETH_TX_BUFFER_SIZE cfg < unat (of_nat (length buffer) - of_nat offset :: u32)"
  shows "msp432e4EthSendPacket cfg interface buffer offset s =
           (ERROR_INVALID_LENGTH, interface\<lparr>nicTxEvent := True\<rparr>, s)"
  using assms by (simp add: msp432e4EthSendPacket_def osSetEvent_nicTxEvent_def)

lemma send_busy:
  assumes "unat (of_nat (length buffer) - of_nat offset :: u32) \<le> MSP432E4_ETH_TX_BUFFER_SIZE cfg"
    and "tdes0 (txDmaDesc s (txCurDmaDesc s)) AND EMAC_TDES0_OWN \<noteq> 0"
  shows "msp432e4EthSendPacket cfg interface buffer offset s = (ERROR_FAILURE, interface, s)"
  using assms by (simp add: msp432e4EthSendPacket_def)

lemma send_ok:
  assumes "unat (of_nat (length buffer) - of_nat offset :: u32) \<le> MSP432E4_ETH_TX_BUFFER_SIZE cfg"
    and "tdes0 (txDmaDesc s (txCurDmaDesc s)) AND EMAC_TDES0_OWN = 0"
  shows "fst (msp432e4EthSendPacket cfg interface buffer offset s) = NO_ERROR"
  using assms by (simp add: msp432e4EthSendPacket_def Let_def)

lemma w5100s_send_invalid_length:
  assumes "ETH_MAX_FRAME_SIZE < unat (of_nat (length buffer) - of_nat offset :: u32)"
  shows "w5100sSendPacket interface buffer offset temp chip =
           (ERROR_INVALID_LENGTH, interface\<lparr>nicTxEvent := True\<rparr>, temp, chip)"
  using assms by (simp add: w5100sSendPacket_def osSetEvent_nicTxEvent_def)

lemma w5100s_send_busy:
  assumes "unat (of_nat (length buffer) - of_nat offset :: u32) \<le> ETH_MAX_FRAME_SIZE"
    and "unat (w5100sReadReg16 W5100S_S0_TX_FSR0 chip) <
           unat (of_nat (length buffer) - of_nat offset :: u32)"
  shows "w5100sSendPacket interface buffer offset temp chip = (ERROR_FAILURE, interface, temp, chip)"
  using assms by (simp add: w5100sSendPacket_def)

lemma w5100s_send_ok:
  assumes "unat (of_nat (length buffer) - of_nat offset :: u32) \<le> ETH_MAX_FRAME_SIZE"
    and "unat (of_nat (length buffer) - of_nat offset :: u32) \<le>
           unat (w5100sReadReg16 W5100S_S0_TX_FSR0 chip)"
  shows "fst (w5100sSendPacket interface buffer offset temp chip) = NO_ERROR"
  using assms by (simp add: w5100sSendPacket_def Let_def)

text \<open>
  C2, as the drivers implement it. The send operations of the MSP432E4 and W5100S
  drivers have two error returns. When the length exceeds the buffer size
  (\<^verbatim>\<open>MSP432E4_ETH_TX_BUFFER_SIZE\<close>, respectively \<^verbatim>\<open>ETH_MAX_FRAME_SIZE\<close>) they set
  \<^verbatim>\<open>nicTxEvent\<close> and return \<open>ERROR_INVALID_LENGTH\<close>, changing nothing else. When
  the current descriptor is owned by the DMA (respectively the free size of the
  transmit memory is less than the length) they return \<open>ERROR_FAILURE\<close> and change
  nothing at all: \<^verbatim>\<open>nicTxEvent\<close> is left as it was. In every other case the status is
  \<open>NO_ERROR\<close>.
\<close>

theorem C2_send_error_returns:
  "(MSP432E4_ETH_TX_BUFFER_SIZE cfg < unat (of_nat (length buffer) - of_nat offset :: u32) \<longrightarrow>
      msp432e4EthSendPacket cfg interface buffer offset s =
        (ERROR_INVALID_LENGTH, interface\<lparr>nicTxEvent := True\<rparr>, s)) \<and>
   (unat (of_nat (length buffer) - of_nat offset :: u32) \<le> MSP432E4_ETH_TX_BUFFER_SIZE cfg \<and>
    tdes0 (txDmaDesc s (txCurDmaDesc s)) AND EMAC_TDES0_OWN \<noteq> 0 \<longrightarrow>
      msp432e4EthSendPacket cfg interface buffer offset s = (ERROR_FAILURE, interface, s)) \<and>
   (unat (of_nat (length buffer) - of_nat offset :: u32) \<le> MSP432E4_ETH_TX_BUFFER_SIZE cfg \<and>
    tdes0 (txDmaDesc s (txCurDmaDesc s)) AND EMAC_TDES0_OWN = 0 \<longrightarrow>
      fst (msp432e4EthSendPacket cfg interface buffer offset s) = NO_ERROR) \<and>
   (ETH_MAX_FRAME_SIZE < unat (of_nat (length buffer) - of_nat offset :: u32) \<longrightarrow>
      w5100sSendPacket interface buffer offset temp chip =
        (ERROR_INVALID_LENGTH, interface\<lparr>nicTxEvent := True\<rparr>, temp, chip)) \<and>
   (unat (of_nat (length buffer) - of_nat offset :: u32) \<le> ETH_MAX_FRAME_SIZE \<and>
    unat (w5100sReadReg16 W5100S_S0_TX_FSR0 chip) <
      unat (of_nat (length buffer) - of_nat offset :: u32) \<longrightarrow>
      w5100sSendPacket interface buffer offset temp chip = (ERROR_FAILURE, interface, temp, chip)) \<and>
   (unat (of_nat (length buffer) - of_nat offset :: u32) \<le> ETH_MAX_FRAME_SIZE \<and>
    unat (of_nat (length buffer) - of_nat offset :: u32) \<le>
      unat (w5100sReadReg16 W5100S_S0_TX_FSR0 chip) \<longrightarrow>
      fst (w5100sSendPacket interface buffer offset temp chip) = NO_ERROR)"
  by (intro conjI impI send_invalid_length send_busy send_ok w5100s_send_invalid_length
      w5100s_send_busy w5100s_send_ok) simp_all

text \<open>
  C2 as stated fails: with the current transmit descriptor owned by the DMA and
  \<^verbatim>\<open>nicTxEvent\<close> not set, \<^verbatim>\<open>msp432e4EthSendPacket\<close> returns \<open>ERROR_FAILURE\<close> and
  \<^verbatim>\<open>nicTxEvent\<close> is still not set.
\<close>

theorem C2_busy_return_counterexample:
  "fst (msp432e4EthSendPacket msp432e4DefaultConfig exampleInterface [] 0 txBusyState) =
     ERROR_FAILURE \<and>
   \<not> nicTxEvent (fst (snd (msp432e4EthSendPacket msp432e4DefaultConfig exampleInterface [] 0
        txBusyState)))"
  by (simp add: msp432e4EthSendPacket_def txBusyState_def Let_def exampleInterface_def
      EMAC_TDES0_OWN_def)

theorem C2_send_error_returns_witness:
  "msp432e4EthSendPacket msp432e4DefaultConfig exampleInterface (replicate 1537 0) 0 txBusyState =
     (ERROR_INVALID_LENGTH, exampleInterface\<lparr>nicTxEvent := True\<rparr>, txBusyState) \<and>
   msp432e4EthSendPacket msp432e4DefaultConfig exampleInterface (replicate 1536 0) 0 txBusyState =
     (ERROR_FAILURE, exampleInterface, txBusyState) \<and>
   w5100sSendPacket exampleInterface (replicate 1519 0) 0 [] w5100sZeroChip =
     (ERROR_INVALID_LENGTH, exampleInterface\<lparr>nicTxEvent := True\<rparr>, [], w5100sZeroChip) \<and>
   w5100sSendPacket exampleInterface (replicate 1518 0) 0 [] w5100sZeroChip =
     (ERROR_FAILURE, exampleInterface, [], w5100sZeroChip)"
proof -
  have own: "tdes0 (txDmaDesc txBusyState (txCurDmaDesc txBusyState)) AND EMAC_TDES0_OWN \<noteq> 0"
    by (simp add: txBusyState_def Let_def EMAC_TDES0_OWN_def)
  have n: "MSP432E4_ETH_TX_BUFFER_SIZE msp432e4DefaultConfig = 1536"
    by (simp add: msp432e4DefaultConfig_def)
  have fsr: "unat (w5100sReadReg16 W5100S_S0_TX_FSR0 w5100sZeroChip) = 0"
    by (simp add: w5100sReadReg16_def w5100sZeroChip_def)
  show ?thesis
    using own n fsr
      C2_send_error_returns [of msp432e4DefaultConfig "replicate 1537 0" 0 exampleInterface
        txBusyState "[]" w5100sZeroChip]
      C2_send_error_returns [of msp432e4DefaultConfig "replicate 1536 0" 0 exampleInterface
        txBusyState "[]" w5100sZeroChip]
      C2_send_error_returns [of msp432e4DefaultConfig "replicate 1519 0" 0 exampleInterface
        txBusyState "[]" w5100sZeroChip]
      C2_send_error_returns [of msp432e4DefaultConfig "replicate 1518 0" 0 exampleInterface
        txBusyState "[]" w5100sZeroChip]
    by (simp add: ETH_MAX_FRAME_SIZE_def)
qed

subsection \<open>MAC address filter of the MSP432E4 driver\<close>

lemma crcUpdate_crcShift: "crcUpdate p crc j = crcShift crc (bit p j)"
proof -
  have "(drop_bit 31 crc XOR ucast (drop_bit j p)) AND 0x01 \<noteq> 0 \<longleftrightarrow>
        bit (drop_bit 31 crc XOR (ucast (drop_bit j p) :: u32)) 0"
    by (simp add: and_one_eq bit_0 odd_iff_mod_2_eq_one)
  also have "\<dots> \<longleftrightarrow> bit crc 31 \<noteq> bit p j"
    by (simp add: bit_simps)
  finally show ?thesis
    by (simp add: crcUpdate_def crcShift_def)
qed

lemma crc_byte: "foldl (crcUpdate p) crc [0..<8] = foldl crcShift crc (byteBits p)"
proof -
  have "crcUpdate p = (\<lambda>crc j. crcShift crc (bit p j))"
    by (intro ext) (rule crcUpdate_crcShift)
  then show ?thesis
    by (simp add: byteBits_def foldl_map)
qed

lemma crc_bytes:
  "foldl (\<lambda>crc p. foldl (crcUpdate p) crc [0..<8]) crc data =
   foldl crcShift crc (concat (map byteBits data))"
  by (induction data arbitrary: crc) (simp_all add: crc_byte)

lemma calcCrc_crc32: "msp432e4EthCalcCrc data = crc32 (concat (map byteBits data))"
  by (simp add: msp432e4EthCalcCrc_def crc32_def crc_bytes)

lemma hashIndex_top_bits:
  "hashIndex a = unat (drop_bit 26 (msp432e4EthCalcCrc (macBytes a)))"
proof -
  have m: "(0x3F :: u32) = mask 6"
    by (simp add: mask_eq_exp_minus_1)
  have "drop_bit 26 x AND 0x3F = drop_bit 26 x" for x :: u32
    unfolding m by (rule bit_word_eqI) (auto simp: bit_simps dest: bit_imp_le_length)
  then show ?thesis by (simp add: hashIndex_def)
qed

lemma hashIndex_less: "hashIndex a < 64"
proof -
  have "unat (x AND 0x3F) \<le> unat (0x3F :: u32)" for x :: u32
    by (rule word_and_le1 [THEN word_le_nat_alt [THEN iffD1]])
  then show ?thesis
    unfolding hashIndex_def by (simp add: le_less_trans [where y = 63] less_Suc_eq_le)
qed

lemma activeUnicast_snoc:
  "activeUnicast (es @ [e]) =
     activeUnicast es @ (if refCount e > 0 \<and> \<not> macIsMulticastAddr (addr e) then [addr e] else [])"
  by (simp add: activeUnicast_def)

lemma activeMulticast_snoc:
  "activeMulticast (es @ [e]) =
     activeMulticast es @ (if refCount e > 0 \<and> macIsMulticastAddr (addr e) then [addr e] else [])"
  by (simp add: activeMulticast_def)

lemma filterEntry_step:
  "filterEntry (j, h, u) e =
     (if refCount e > 0 then
        (if macIsMulticastAddr (addr e) then
           (j, h[hashIndex (addr e) div 32 :=
                   h ! (hashIndex (addr e) div 32) OR push_bit (hashIndex (addr e) mod 32) 1], u)
         else if j < 3 then (j + 1, h, u[j := addr e])
         else (j, h, u))
      else (j, h, u))"
  by (simp add: filterEntry_def Let_def)

lemma filter_loop_unicast:
  "fst (foldl filterEntry filterInit es) = min 3 (length (activeUnicast es)) \<and>
   length (snd (snd (foldl filterEntry filterInit es))) = 3 \<and>
   (\<forall>n < 3. snd (snd (foldl filterEntry filterInit es)) ! n =
      (if n < length (activeUnicast es) then activeUnicast es ! n else MAC_UNSPECIFIED_ADDR))"
proof (induction es rule: rev_induct)
  case Nil
  then show ?case
    by (auto simp: filterInit_def activeUnicast_def less_Suc_eq numeral_3_eq_3)
next
  case (snoc e es)
  obtain j h u where st: "foldl filterEntry filterInit es = (j, h, u)"
    by (cases "foldl filterEntry filterInit es")
  have step: "foldl filterEntry filterInit (es @ [e]) = filterEntry (j, h, u) e"
    using st by simp
  from snoc st have IH: "j = min 3 (length (activeUnicast es))" "length u = 3"
    "\<forall>n < 3. u ! n =
      (if n < length (activeUnicast es) then activeUnicast es ! n else MAC_UNSPECIFIED_ADDR)"
    by simp_all
  show ?case
    unfolding step using IH
    by (auto simp: filterEntry_step activeUnicast_snoc nth_list_update nth_append)
qed

lemma bit_set_hash:
  assumes "k < 64" "k0 < 64" "length h = 2"
  shows "bit (h[k0 div 32 := h ! (k0 div 32) OR push_bit (k0 mod 32) (1 :: u32)] ! (k div 32))
           (k mod 32) \<longleftrightarrow>
         bit (h ! (k div 32)) (k mod 32) \<or> k = k0"
proof -
  have d: "k div 32 < 2" "k0 div 32 < 2"
    using assms(1,2) by simp_all
  have eq: "k = k0 \<longleftrightarrow> k div 32 = k0 div 32 \<and> k mod 32 = k0 mod 32"
    by (metis div_mult_mod_eq)
  show ?thesis
    using d assms(3) unfolding eq
    by (auto simp: nth_list_update bit_simps)
qed

lemma bit_set_hash_pow:
  assumes "k < 64" "k0 < 64" "length h = 2"
  shows "bit (h[k0 div 32 := h ! (k0 div 32) OR (2 :: u32) ^ (k0 mod 32)] ! (k div 32))
           (k mod 32) \<longleftrightarrow>
         bit (h ! (k div 32)) (k mod 32) \<or> k = k0"
  using bit_set_hash [OF assms] by simp

lemma filter_loop_hash:
  "length (fst (snd (foldl filterEntry filterInit es))) = 2 \<and>
   (\<forall>k < 64. bit (fst (snd (foldl filterEntry filterInit es)) ! (k div 32)) (k mod 32) \<longleftrightarrow>
      (\<exists>a \<in> set (activeMulticast es). hashIndex a = k))"
proof (induction es rule: rev_induct)
  case Nil
  have "([0, 0] :: u32 list) ! (k div 32) = 0" if "k < 64" for k :: nat
  proof -
    from that have "k div 32 = 0 \<or> k div 32 = 1" by auto
    then show ?thesis by auto
  qed
  then show ?case
    by (simp add: filterInit_def activeMulticast_def)
next
  case (snoc e es)
  obtain j h u where st: "foldl filterEntry filterInit es = (j, h, u)"
    by (cases "foldl filterEntry filterInit es")
  have step: "foldl filterEntry filterInit (es @ [e]) = filterEntry (j, h, u) e"
    using st by simp
  from snoc st have IH: "length h = 2"
    "\<forall>k < 64. bit (h ! (k div 32)) (k mod 32) \<longleftrightarrow>
      (\<exists>a \<in> set (activeMulticast es). hashIndex a = k)"
    by simp_all
  show ?case
    unfolding step using IH
    by (auto simp: filterEntry_step activeMulticast_snoc bit_set_hash_pow hashIndex_less)
qed

lemma hashIndex_example: "hashIndex hashExampleAddr = 44"
  by (simp add: hashIndex_def msp432e4EthCalcCrc_def macBytes_def hashExampleAddr_def upt_rec [of _ 8] upt_rec [of _ "Suc _"] crcUpdate_def)

lemma update_filter_regs:
  assumes "foldl filterEntry filterInit (macAddrFilter interface) = (j, h, u)"
  shows "fst (msp432e4EthUpdateMacAddrFilter interface s) = NO_ERROR"
    and "HASHTBLL (EMAC0 (snd (msp432e4EthUpdateMacAddrFilter interface s))) = h ! 0"
    and "HASHTBLH (EMAC0 (snd (msp432e4EthUpdateMacAddrFilter interface s))) = h ! 1"
    and "ADDR1L (EMAC0 (snd (msp432e4EthUpdateMacAddrFilter interface s))) =
           (if 1 \<le> j then macW0 (u ! 0) OR push_bit 16 (macW1 (u ! 0)) else 0)"
    and "ADDR1H (EMAC0 (snd (msp432e4EthUpdateMacAddrFilter interface s))) =
           (if 1 \<le> j then macW2 (u ! 0) OR EMAC_ADDR1H_AE else 0)"
    and "ADDR2L (EMAC0 (snd (msp432e4EthUpdateMacAddrFilter interface s))) =
           (if 2 \<le> j then macW0 (u ! 1) OR push_bit 16 (macW1 (u ! 1)) else 0)"
    and "ADDR2H (EMAC0 (snd (msp432e4EthUpdateMacAddrFilter interface s))) =
           (if 2 \<le> j then macW2 (u ! 1) OR EMAC_ADDR2H_AE else 0)"
    and "ADDR3L (EMAC0 (snd (msp432e4EthUpdateMacAddrFilter interface s))) =
           (if 3 \<le> j then macW0 (u ! 2) OR push_bit 16 (macW1 (u ! 2)) else 0)"
    and "ADDR3H (EMAC0 (snd (msp432e4EthUpdateMacAddrFilter interface s))) =
           (if 3 \<le> j then macW2 (u ! 2) OR EMAC_ADDR3H_AE else 0)"
  using assms by (simp_all add: msp432e4EthUpdateMacAddrFilter_def Let_def)

lemma update_filter_hashBit:
  assumes "k < 64"
  shows "hashBit (EMAC0 (snd (msp432e4EthUpdateMacAddrFilter interface s))) k \<longleftrightarrow>
           (\<exists>a \<in> set (activeMulticast (macAddrFilter interface)). hashIndex a = k)"
proof -
  obtain j h u where st: "foldl filterEntry filterInit (macAddrFilter interface) = (j, h, u)"
    by (cases "foldl filterEntry filterInit (macAddrFilter interface)")
  have "k div 32 = 0 \<and> k mod 32 = k" if "k < 32"
    using that by simp
  moreover have "k div 32 = 1 \<and> k mod 32 = k - 32" if "\<not> k < 32"
    using that assms by (auto simp: mod_if div_if)
  ultimately have "hashBit (EMAC0 (snd (msp432e4EthUpdateMacAddrFilter interface s))) k \<longleftrightarrow>
      bit (h ! (k div 32)) (k mod 32)"
    by (auto simp add: hashBit_def update_filter_regs [OF st])
  with filter_loop_hash [of "macAddrFilter interface"] st assms show ?thesis
    by simp
qed

text \<open>
  C5. The CRC that \<^verbatim>\<open>msp432e4EthCalcCrc\<close> computes over the six bytes of an address
  is the CRC of degree 32 with polynomial \<open>0x04C11DB7\<close>, initial value \<open>0xFFFFFFFF\<close>
  and inverted result (\<open>crc32\<close>) of the address bits, each byte least significant
  bit first. The index \<open>(crc >> 26) & 0x3F\<close> is the six upper bits of the CRC and lies
  below 64. After \<^verbatim>\<open>msp432e4EthUpdateMacAddrFilter\<close>, every active multicast address
  of the filter finds its bit set in the hash table, entries 0 to 31 being in
  \<open>HASHTBLL\<close> and entries 32 to 63 in \<open>HASHTBLH\<close>, and the table contains exactly the
  bits of the active multicast addresses. For the example of the MAC's hash filter
  documentation, the destination address \<open>1F:52:41:9C:B6:AF\<close>, the index is \<open>0x2C\<close>,
  that is bit 12 of the high register.
\<close>

theorem C5_multicast_hash:
  "msp432e4EthCalcCrc (macBytes a) = crc32 (concat (map byteBits (macBytes a))) \<and>
   hashIndex a = unat (drop_bit 26 (msp432e4EthCalcCrc (macBytes a)) AND 0x3F) \<and>
   hashIndex a = unat (drop_bit 26 (msp432e4EthCalcCrc (macBytes a))) \<and>
   hashIndex a < 64 \<and>
   (\<forall>e \<in> set (macAddrFilter interface). refCount e > 0 \<and> macIsMulticastAddr (addr e) \<longrightarrow>
      hashMatch (EMAC0 (snd (msp432e4EthUpdateMacAddrFilter interface s))) (addr e)) \<and>
   (\<forall>k < 64. hashBit (EMAC0 (snd (msp432e4EthUpdateMacAddrFilter interface s))) k \<longleftrightarrow>
      (\<exists>m \<in> set (activeMulticast (macAddrFilter interface)). hashIndex m = k)) \<and>
   hashIndex hashExampleAddr = 0x2C \<and>
   HASHTBLL (EMAC0 (snd (msp432e4EthUpdateMacAddrFilter hashExampleInterface s))) = 0 \<and>
   HASHTBLH (EMAC0 (snd (msp432e4EthUpdateMacAddrFilter hashExampleInterface s))) = 0x00001000"
proof -
  have match: "hashMatch (EMAC0 (snd (msp432e4EthUpdateMacAddrFilter interface s))) (addr e)"
    if "e \<in> set (macAddrFilter interface)" "refCount e > 0" "macIsMulticastAddr (addr e)" for e
  proof -
    from that have "addr e \<in> set (activeMulticast (macAddrFilter interface))"
      by (auto simp: activeMulticast_def)
    then show ?thesis
      unfolding hashMatch_def using update_filter_hashBit [OF hashIndex_less] by blast
  qed
  have ex: "foldl filterEntry filterInit (macAddrFilter hashExampleInterface) =
      (0, [0, 0x1000], [MAC_UNSPECIFIED_ADDR, MAC_UNSPECIFIED_ADDR, MAC_UNSPECIFIED_ADDR])"
    by (simp add: hashExampleInterface_def filterInit_def filterEntry_step hashIndex_example
        macIsMulticastAddr_def hashExampleAddr_def [THEN arg_cong, of b0])
  show ?thesis
    using match update_filter_hashBit [of _ interface s]
    by (simp add: calcCrc_crc32 [symmetric] hashIndex_top_bits [symmetric] hashIndex_less
        hashIndex_example update_filter_regs [OF ex])
       (simp add: hashIndex_def)
qed

theorem C5_multicast_hash_witness:
  "hashMatch (EMAC0 (snd (msp432e4EthUpdateMacAddrFilter hashExampleInterface msp432e4ZeroState)))
     hashExampleAddr \<and>
   hashBit (EMAC0 (snd (msp432e4EthUpdateMacAddrFilter hashExampleInterface msp432e4ZeroState))) 44 \<and>
   \<not> hashBit (EMAC0 (snd (msp432e4EthUpdateMacAddrFilter hashExampleInterface msp432e4ZeroState))) 7"
proof -
  note t = C5_multicast_hash [of hashExampleAddr hashExampleInterface msp432e4ZeroState]
  let ?e = "\<lparr>addr = hashExampleAddr, refCount = 1\<rparr>"
  have mc: "macIsMulticastAddr hashExampleAddr"
    by (simp add: macIsMulticastAddr_def hashExampleAddr_def)
  have e: "?e \<in> set (macAddrFilter hashExampleInterface)" "refCount ?e > 0"
    "macIsMulticastAddr (addr ?e)"
    using mc by (simp_all add: hashExampleInterface_def)
  have am: "activeMulticast (macAddrFilter hashExampleInterface) = [hashExampleAddr]"
    using mc by (simp add: activeMulticast_def hashExampleInterface_def)
  from t e have "hashMatch (EMAC0 (snd (msp432e4EthUpdateMacAddrFilter hashExampleInterface
      msp432e4ZeroState))) (addr ?e)"
    by blast
  moreover from t have "hashIndex hashExampleAddr = 0x2C"
    by blast
  moreover from t have "hashBit (EMAC0 (snd (msp432e4EthUpdateMacAddrFilter hashExampleInterface
      msp432e4ZeroState))) k \<longleftrightarrow>
      (\<exists>m \<in> set (activeMulticast (macAddrFilter hashExampleInterface)). hashIndex m = k)"
    if "k < 64" for k
    using that by blast
  ultimately show ?thesis
    by (simp add: am)
qed

subsection \<open>Unicast addresses beyond the perfect filter slots\<close>

lemma overflow_loop:
  "foldl filterEntry filterInit (macAddrFilter overflowInterface) =
     (3, [0, 0],
      [\<lparr>b0 = 0x02, b1 = 0, b2 = 0, b3 = 0, b4 = 0, b5 = 0x01\<rparr>,
       \<lparr>b0 = 0x02, b1 = 0, b2 = 0, b3 = 0, b4 = 0, b5 = 0x02\<rparr>,
       \<lparr>b0 = 0x02, b1 = 0, b2 = 0, b3 = 0, b4 = 0, b5 = 0x03\<rparr>])"
  by (simp add: overflowInterface_def filterInit_def filterEntry_step macIsMulticastAddr_def)

text \<open>
  C6 as stated fails: with four active unicast addresses in the filter, the update
  succeeds, and the fourth address is matched neither by a perfect filter slot nor by
  a bit of the hash table.
\<close>

theorem C6_overflow_counterexample:
  "fst (msp432e4EthUpdateMacAddrFilter overflowInterface msp432e4ZeroState) = NO_ERROR \<and>
   \<lparr>addr = overflowAddr, refCount = 1\<rparr> \<in> set (macAddrFilter overflowInterface) \<and>
   \<not> perfectMatch (EMAC0 (snd (msp432e4EthUpdateMacAddrFilter overflowInterface msp432e4ZeroState)))
       overflowAddr \<and>
   \<not> hashMatch (EMAC0 (snd (msp432e4EthUpdateMacAddrFilter overflowInterface msp432e4ZeroState)))
       overflowAddr"
proof -
  have "\<lparr>addr = overflowAddr, refCount = 1\<rparr> \<in> set (macAddrFilter overflowInterface)"
    by (simp add: overflowInterface_def overflowAddr_def)
  then show ?thesis
    by (simp add: update_filter_regs [OF overflow_loop] perfectMatch_def slotMatches_def
        hashMatch_def hashBit_def overflowAddr_def macW0_def macW1_def macW2_def
        EMAC_ADDR1H_AE_def EMAC_ADDR2H_AE_def EMAC_ADDR3H_AE_def)
qed

lemma macW2_low: "(macW2 a OR 0x80000000) AND 0xFFFF = macW2 a"
proof -
  have m: "(0xFFFF :: u32) = mask 16"
    by (simp add: mask_eq_exp_minus_1)
  have "macW2 a AND mask 16 = macW2 a"
    unfolding macW2_def
    by (rule bit_word_eqI) (auto simp: bit_simps dest: bit_imp_le_length)
  then show ?thesis
    by (simp add: bit.conj_disj_distrib2 m [symmetric])
qed

lemma slotMatches_enabled: "slotMatches (macW0 a OR push_bit 16 (macW1 a)) (macW2 a OR 0x80000000) a"
proof -
  have "(macW2 a OR 0x80000000) AND 0x80000000 \<noteq> 0"
  proof
    assume "(macW2 a OR 0x80000000) AND 0x80000000 = 0"
    then have "bit ((macW2 a OR 0x80000000) AND (0x80000000 :: u32)) 31 = bit (0 :: u32) 31"
      by simp
    then show False
      by (simp add: bit_simps)
  qed
  then show ?thesis
    by (simp add: slotMatches_def macW2_low)
qed

text \<open>
  C6, as the driver implements it. \<^verbatim>\<open>msp432e4EthUpdateMacAddrFilter\<close> never fails,
  whatever the number of active unicast addresses. The first three active unicast
  addresses, in the order of the filter table, are matched by the perfect filter
  slots: slot \<open>n\<close> holds the \<open>n\<close>-th of them with its enable bit set, and is zero when
  there is no such address. Further unicast addresses are not programmed: the hash
  table holds exactly the bits of the active multicast addresses.
\<close>

theorem C6_unicast_overflow:
  "fst (msp432e4EthUpdateMacAddrFilter interface s) = NO_ERROR \<and>
   (\<forall>n < 3. n < length (activeUnicast (macAddrFilter interface)) \<longrightarrow>
      perfectMatch (EMAC0 (snd (msp432e4EthUpdateMacAddrFilter interface s)))
        (activeUnicast (macAddrFilter interface) ! n)) \<and>
   (ADDR1L (EMAC0 (snd (msp432e4EthUpdateMacAddrFilter interface s))),
    ADDR1H (EMAC0 (snd (msp432e4EthUpdateMacAddrFilter interface s)))) =
     (if 1 \<le> length (activeUnicast (macAddrFilter interface))
      then (macW0 (activeUnicast (macAddrFilter interface) ! 0) OR
              push_bit 16 (macW1 (activeUnicast (macAddrFilter interface) ! 0)),
            macW2 (activeUnicast (macAddrFilter interface) ! 0) OR EMAC_ADDR1H_AE)
      else (0, 0)) \<and>
   (ADDR2L (EMAC0 (snd (msp432e4EthUpdateMacAddrFilter interface s))),
    ADDR2H (EMAC0 (snd (msp432e4EthUpdateMacAddrFilter interface s)))) =
     (if 2 \<le> length (activeUnicast (macAddrFilter interface))
      then (macW0 (activeUnicast (macAddrFilter interface) ! 1) OR
              push_bit 16 (macW1 (activeUnicast (macAddrFilter interface) ! 1)),
            macW2 (activeUnicast (macAddrFilter interface) ! 1) OR EMAC_ADDR2H_AE)
      else (0, 0)) \<and>
   (ADDR3L (EMAC0 (snd (msp432e4EthUpdateMacAddrFilter interface s))),
    ADDR3H (EMAC0 (snd (msp432e4EthUpdateMacAddrFilter interface s)))) =
     (if 3 \<le> length (activeUnicast (macAddrFilter interface))
      then (macW0 (activeUnicast (macAddrFilter interface) ! 2) OR
              push_bit 16 (macW1 (activeUnicast (macAddrFilter interface) ! 2)),
            macW2 (activeUnicast (macAddrFilter interface) ! 2) OR EMAC_ADDR3H_AE)
      else (0, 0)) \<and>
   (\<forall>k < 64. hashBit (EMAC0 (snd (msp432e4EthUpdateMacAddrFilter interface s))) k \<longleftrightarrow>
      (\<exists>m \<in> set (activeMulticast (macAddrFilter interface)). hashIndex m = k))"
proof -
  let ?us = "activeUnicast (macAddrFilter interface)"
  obtain j h u where st: "foldl filterEntry filterInit (macAddrFilter interface) = (j, h, u)"
    by (cases "foldl filterEntry filterInit (macAddrFilter interface)")
  from filter_loop_unicast [of "macAddrFilter interface"] st
  have j: "j = min 3 (length ?us)"
    and u: "\<And>n. n < 3 \<Longrightarrow> u ! n = (if n < length ?us then ?us ! n else MAC_UNSPECIFIED_ADDR)"
    by simp_all
  note r = update_filter_regs [OF st, of s]
  have s1: "(ADDR1L (EMAC0 (snd (msp432e4EthUpdateMacAddrFilter interface s))),
    ADDR1H (EMAC0 (snd (msp432e4EthUpdateMacAddrFilter interface s)))) =
     (if 1 \<le> length ?us
      then (macW0 (?us ! 0) OR push_bit 16 (macW1 (?us ! 0)), macW2 (?us ! 0) OR EMAC_ADDR1H_AE)
      else (0, 0))"
    using u [of 0] by (simp add: r j)
  have s2: "(ADDR2L (EMAC0 (snd (msp432e4EthUpdateMacAddrFilter interface s))),
    ADDR2H (EMAC0 (snd (msp432e4EthUpdateMacAddrFilter interface s)))) =
     (if 2 \<le> length ?us
      then (macW0 (?us ! 1) OR push_bit 16 (macW1 (?us ! 1)), macW2 (?us ! 1) OR EMAC_ADDR2H_AE)
      else (0, 0))"
    using u [of 1] by (simp add: r j)
  have s3: "(ADDR3L (EMAC0 (snd (msp432e4EthUpdateMacAddrFilter interface s))),
    ADDR3H (EMAC0 (snd (msp432e4EthUpdateMacAddrFilter interface s)))) =
     (if 3 \<le> length ?us
      then (macW0 (?us ! 2) OR push_bit 16 (macW1 (?us ! 2)), macW2 (?us ! 2) OR EMAC_ADDR3H_AE)
      else (0, 0))"
    using u [of 2] by (simp add: r j)
  have pm: "perfectMatch (EMAC0 (snd (msp432e4EthUpdateMacAddrFilter interface s))) (?us ! n)"
    if "n < 3" "n < length ?us" for n
  proof -
    from that(1) have "n = 0 \<or> n = 1 \<or> n = 2" by auto
    then show ?thesis
      using that(2) s1 s2 s3 slotMatches_enabled
      by (auto simp: perfectMatch_def EMAC_ADDR1H_AE_def EMAC_ADDR2H_AE_def EMAC_ADDR3H_AE_def)
  qed
  from r(1) pm s1 s2 s3 update_filter_hashBit [of _ interface s] show ?thesis
    by blast
qed

theorem C6_unicast_overflow_witness:
  "fst (msp432e4EthUpdateMacAddrFilter overflowInterface msp432e4ZeroState) = NO_ERROR \<and>
   perfectMatch (EMAC0 (snd (msp432e4EthUpdateMacAddrFilter overflowInterface msp432e4ZeroState)))
     \<lparr>b0 = 0x02, b1 = 0, b2 = 0, b3 = 0, b4 = 0, b5 = 0x03\<rparr> \<and>
   ADDR3L (EMAC0 (snd (msp432e4EthUpdateMacAddrFilter overflowInterface msp432e4ZeroState))) =
     0x00000002 \<and>
   ADDR3H (EMAC0 (snd (msp432e4EthUpdateMacAddrFilter overflowInterface msp432e4ZeroState))) =
     0x80000300 \<and>
   \<not> hashBit (EMAC0 (snd (msp432e4EthUpdateMacAddrFilter overflowInterface msp432e4ZeroState))) 5"
proof -
  let ?r = "EMAC0 (snd (msp432e4EthUpdateMacAddrFilter overflowInterface msp432e4ZeroState))"
  have us: "activeUnicast (macAddrFilter overflowInterface) =
      [\<lparr>b0 = 0x02, b1 = 0, b2 = 0, b3 = 0, b4 = 0, b5 = 0x01\<rparr>,
       \<lparr>b0 = 0x02, b1 = 0, b2 = 0, b3 = 0, b4 = 0, b5 = 0x02\<rparr>,
       \<lparr>b0 = 0x02, b1 = 0, b2 = 0, b3 = 0, b4 = 0, b5 = 0x03\<rparr>,
       \<lparr>b0 = 0x02, b1 = 0, b2 = 0, b3 = 0, b4 = 0, b5 = 0x04\<rparr>]"
    by (simp add: activeUnicast_def overflowInterface_def macIsMulticastAddr_def)
  have am: "activeMulticast (macAddrFilter overflowInterface) = []"
    by (simp add: activeMulticast_def overflowInterface_def macIsMulticastAddr_def)
  note t = C6_unicast_overflow [of overflowInterface msp432e4ZeroState]
  from t have "\<forall>n < 3. n < length (activeUnicast (macAddrFilter overflowInterface)) \<longrightarrow>
      perfectMatch ?r (activeUnicast (macAddrFilter overflowInterface) ! n)"
    by blast
  then have "2 < length (activeUnicast (macAddrFilter overflowInterface)) \<longrightarrow>
      perfectMatch ?r (activeUnicast (macAddrFilter overflowInterface) ! 2)"
    by (rule allE [where x = 2]) simp
  then have "perfectMatch ?r (activeUnicast (macAddrFilter overflowInterface) ! 2)"
    by (simp add: us)
  moreover from t have "\<forall>k < 64. hashBit ?r k \<longleftrightarrow>
      (\<exists>m \<in> set (activeMulticast (macAddrFilter overflowInterface)). hashIndex m = k)"
    by blast
  then have "hashBit ?r 5 \<longleftrightarrow>
      (\<exists>m \<in> set (activeMulticast (macAddrFilter overflowInterface)). hashIndex m = 5)"
    by (rule allE [where x = 5]) simp
  then have "\<not> hashBit ?r 5"
    by (simp add: am)
  moreover from t have "(ADDR3L ?r, ADDR3H ?r) =
     (if 3 \<le> length (activeUnicast (macAddrFilter overflowInterface))
      then (macW0 (activeUnicast (macAddrFilter overflowInterface) ! 2) OR
              push_bit 16 (macW1 (activeUnicast (macAddrFilter overflowInterface) ! 2)),
            macW2 (activeUnicast (macAddrFilter overflowInterface) ! 2) OR EMAC_ADDR3H_AE)
      else (0, 0))"
    by blast
  moreover from t have "fst (msp432e4EthUpdateMacAddrFilter overflowInterface msp432e4ZeroState) =
      NO_ERROR"
    by blast
  ultimately show ?thesis
    by (simp add: us macW0_def macW1_def macW2_def EMAC_ADDR3H_AE_def)
qed

subsection \<open>Static MAC table of the KSZ9477 driver\<close>

lemma index_cases:
  assumes "i < (16 :: nat)"
  obtains "i = 0" | "i = 1" | "i = 2" | "i = 3" | "i = 4" | "i = 5" | "i = 6" | "i = 7"
    | "i = 8" | "i = 9" | "i = 10" | "i = 11" | "i = 12" | "i = 13" | "i = 14" | "i = 15"
  using assms by (auto simp: less_Suc_eq numeral_eq_Suc)

lemma staticReadCommand_fields:
  assumes "i < 16"
  shows "staticReadCommand i AND KSZ9477_STATIC_MCAST_TABLE_CTRL_START_FINISH \<noteq> 0"
    and "staticReadCommand i AND KSZ9477_STATIC_MCAST_TABLE_CTRL_TABLE_SELECT = 0"
    and "staticReadCommand i AND KSZ9477_STATIC_MCAST_TABLE_CTRL_ACTION \<noteq> 0"
    and "unat (drop_bit 16 (staticReadCommand i AND KSZ9477_STATIC_MCAST_TABLE_CTRL_TABLE_INDEX)) = i"
  using assms
  by (elim index_cases;
      simp add: staticReadCommand_def KSZ9477_STATIC_MCAST_TABLE_CTRL_START_FINISH_def
        KSZ9477_STATIC_MCAST_TABLE_CTRL_TABLE_SELECT_def KSZ9477_STATIC_MCAST_TABLE_CTRL_ACTION_def
        KSZ9477_STATIC_MCAST_TABLE_CTRL_TABLE_INDEX_def)+

lemma staticWriteCommand_fields:
  assumes "i < 16"
  shows "staticWriteCommand i AND KSZ9477_STATIC_MCAST_TABLE_CTRL_START_FINISH \<noteq> 0"
    and "staticWriteCommand i AND KSZ9477_STATIC_MCAST_TABLE_CTRL_TABLE_SELECT = 0"
    and "staticWriteCommand i AND KSZ9477_STATIC_MCAST_TABLE_CTRL_ACTION = 0"
    and "unat (drop_bit 16 (staticWriteCommand i AND KSZ9477_STATIC_MCAST_TABLE_CTRL_TABLE_INDEX)) = i"
  using assms
  by (elim index_cases;
      simp add: staticWriteCommand_def KSZ9477_STATIC_MCAST_TABLE_CTRL_START_FINISH_def
        KSZ9477_STATIC_MCAST_TABLE_CTRL_TABLE_SELECT_def KSZ9477_STATIC_MCAST_TABLE_CTRL_ACTION_def
        KSZ9477_STATIC_MCAST_TABLE_CTRL_TABLE_INDEX_def)+

lemma pollStartFinish_spi:
  assumes "spiDriver interface"
  shows "pollStartFinish interface c =
           (reg32 c KSZ9477_STATIC_MCAST_TABLE_CTRL AND
              NOT KSZ9477_STATIC_MCAST_TABLE_CTRL_START_FINISH,
            c\<lparr>staticBusy := 0\<rparr>)"
proof (induction "staticBusy c" arbitrary: c)
  case 0
  have z: "(a AND NOT m) AND m = 0" for a m :: u32
    by (simp add: and.assoc)
  from 0 have "c\<lparr>staticBusy := 0\<rparr> = c"
    by simp
  with 0 assms show ?case
    by (subst pollStartFinish.simps)
       (simp add: ksz9477ReadSwitchReg32_def chipRead32_def z)
next
  case (Suc n)
  have nz: "(a OR KSZ9477_STATIC_MCAST_TABLE_CTRL_START_FINISH) AND
      KSZ9477_STATIC_MCAST_TABLE_CTRL_START_FINISH \<noteq> 0" for a :: u32
    by (simp add: KSZ9477_STATIC_MCAST_TABLE_CTRL_START_FINISH_def
        bit.conj_disj_distrib2)
  from Suc(2) have b: "0 < staticBusy c" "staticBusy c - 1 = n"
    by simp_all
  have "n = staticBusy (c\<lparr>staticBusy := n\<rparr>)"
    by simp
  note IH = Suc(1) [OF this]
  show ?case
    using assms b nz
    by (subst pollStartFinish.simps)
       (simp add: ksz9477ReadSwitchReg32_def chipRead32_def IH)
qed

lemmas ksz_addrs =
  KSZ9477_STATIC_MCAST_TABLE_CTRL_def KSZ9477_ALU_TABLE_CTRL_def KSZ9477_TABLE_ENTRY1_def
  KSZ9477_TABLE_ENTRY2_def KSZ9477_TABLE_ENTRY3_def KSZ9477_TABLE_ENTRY4_def

lemma static_read_command:
  assumes "i < 16"
  shows "chipWrite32 KSZ9477_STATIC_MCAST_TABLE_CTRL (staticReadCommand i) c =
           (chipLoadEntry (staticTable c i)
              (c\<lparr>written := written c @ [(KSZ9477_STATIC_MCAST_TABLE_CTRL, staticReadCommand i)]\<rparr>))
           \<lparr>reg32 := (reg32 (chipLoadEntry (staticTable c i) c))
                       (KSZ9477_STATIC_MCAST_TABLE_CTRL := staticReadCommand i),
            staticBusy := latency c\<rparr>"
  using staticReadCommand_fields [OF assms]
  by (simp add: chipWrite32_def Let_def chipLoadEntry_def split: prod.splits)

lemma static_read_regs:
  assumes "i < 16" "staticTable c i = (e1, e2, e3, e4)"
  shows "reg32 (chipWrite32 KSZ9477_STATIC_MCAST_TABLE_CTRL (staticReadCommand i) c)
           KSZ9477_TABLE_ENTRY1 = e1"
    and "reg32 (chipWrite32 KSZ9477_STATIC_MCAST_TABLE_CTRL (staticReadCommand i) c)
           KSZ9477_TABLE_ENTRY2 = e2"
    and "reg32 (chipWrite32 KSZ9477_STATIC_MCAST_TABLE_CTRL (staticReadCommand i) c)
           KSZ9477_TABLE_ENTRY3 = e3"
    and "reg32 (chipWrite32 KSZ9477_STATIC_MCAST_TABLE_CTRL (staticReadCommand i) c)
           KSZ9477_TABLE_ENTRY4 = e4"
    and "staticTable (chipWrite32 KSZ9477_STATIC_MCAST_TABLE_CTRL (staticReadCommand i) c) =
           staticTable c"
    and "written (chipWrite32 KSZ9477_STATIC_MCAST_TABLE_CTRL (staticReadCommand i) c) =
           written c @ [(KSZ9477_STATIC_MCAST_TABLE_CTRL, staticReadCommand i)]"
  unfolding static_read_command [OF assms(1)]
  using assms(2) by (simp_all add: chipLoadEntry_def ksz_addrs)

lemma read_entry_regs:
  assumes "spiDriver interface"
  shows "ksz9477ReadSwitchReg32 interface KSZ9477_TABLE_ENTRY1 c = (reg32 c KSZ9477_TABLE_ENTRY1, c)"
    and "ksz9477ReadSwitchReg32 interface KSZ9477_TABLE_ENTRY2 c = (reg32 c KSZ9477_TABLE_ENTRY2, c)"
    and "ksz9477ReadSwitchReg32 interface KSZ9477_TABLE_ENTRY3 c = (reg32 c KSZ9477_TABLE_ENTRY3, c)"
    and "fst (ksz9477ReadSwitchReg32 interface KSZ9477_TABLE_ENTRY4 c) = reg32 c KSZ9477_TABLE_ENTRY4"
    and "staticTable (snd (ksz9477ReadSwitchReg32 interface KSZ9477_TABLE_ENTRY4 c)) = staticTable c"
    and "written (snd (ksz9477ReadSwitchReg32 interface KSZ9477_TABLE_ENTRY4 c)) = written c"
    and "aluSearching (snd (ksz9477ReadSwitchReg32 interface KSZ9477_TABLE_ENTRY4 c)) =
           aluSearching c"
  using assms
  by (simp_all add: ksz9477ReadSwitchReg32_def chipRead32_def ksz_addrs chipAluSeek_def
      chipLoadEntry_def Let_def split: prod.splits)

lemma getStatic_spi:
  assumes "spiDriver interface" "i < 16"
  shows "fst (ksz9477GetStaticFdbEntry interface i cur c) =
           (if slotValid (staticTable c i) then NO_ERROR else ERROR_INVALID_ENTRY)"
    and "slotValid (staticTable c i) \<Longrightarrow>
           fst (snd (ksz9477GetStaticFdbEntry interface i cur c)) = slotEntry (staticTable c i)"
    and "staticTable (snd (snd (ksz9477GetStaticFdbEntry interface i cur c))) = staticTable c"
    and "written (snd (snd (ksz9477GetStaticFdbEntry interface i cur c))) =
           written c @ [(KSZ9477_STATIC_MCAST_TABLE_CTRL, staticReadCommand i)]"
proof -
  obtain e1 e2 e3 e4 where e: "staticTable c i = (e1, e2, e3, e4)"
    by (cases "staticTable c i") auto
  let ?c1 = "ksz9477WriteSwitchReg32 interface KSZ9477_STATIC_MCAST_TABLE_CTRL
      (staticReadCommand i) c"
  let ?c2 = "snd (pollStartFinish interface ?c1)"
  have c2: "reg32 ?c2 KSZ9477_TABLE_ENTRY1 = e1" "reg32 ?c2 KSZ9477_TABLE_ENTRY2 = e2"
    "reg32 ?c2 KSZ9477_TABLE_ENTRY3 = e3" "reg32 ?c2 KSZ9477_TABLE_ENTRY4 = e4"
    "staticTable ?c2 = staticTable c"
    "written ?c2 = written c @ [(KSZ9477_STATIC_MCAST_TABLE_CTRL, staticReadCommand i)]"
    using assms(1) static_read_regs [OF assms(2) e]
    by (simp_all add: ksz9477WriteSwitchReg32_def pollStartFinish_spi)
  have unfold: "ksz9477GetStaticFdbEntry interface i cur c =
      (if e1 AND KSZ9477_STATIC_TABLE_ENTRY1_VALID \<noteq> 0
       then (NO_ERROR, slotEntry (e1, e2, e3, e4),
             snd (ksz9477ReadSwitchReg32 interface KSZ9477_TABLE_ENTRY4 ?c2))
       else (ERROR_INVALID_ENTRY, cur, ?c2))"
    using assms(2) c2(1-4) read_entry_regs(4) [OF assms(1), of ?c2]
    by (cases cur, cases "fdbMacAddr cur")
       (simp add: ksz9477GetStaticFdbEntry_def KSZ9477_STATIC_MAC_TABLE_SIZE_def Let_def
        read_entry_regs(1-3) [OF assms(1)] slotEntry_def split_def)
  show "fst (ksz9477GetStaticFdbEntry interface i cur c) =
           (if slotValid (staticTable c i) then NO_ERROR else ERROR_INVALID_ENTRY)"
    by (simp add: unfold e slotValid_def)
  show "fst (snd (ksz9477GetStaticFdbEntry interface i cur c)) = slotEntry (staticTable c i)"
    if "slotValid (staticTable c i)"
    using that by (simp add: unfold e slotValid_def)
  show "staticTable (snd (snd (ksz9477GetStaticFdbEntry interface i cur c))) = staticTable c"
    using c2(5) read_entry_regs(5) [OF assms(1), of ?c2]
    by (simp add: unfold)
  show "written (snd (snd (ksz9477GetStaticFdbEntry interface i cur c))) =
           written c @ [(KSZ9477_STATIC_MCAST_TABLE_CTRL, staticReadCommand i)]"
    using c2(6) read_entry_regs(6) [OF assms(1), of ?c2]
    by (simp add: unfold)
qed

lemma addStaticScan_spi:
  assumes spi: "spiDriver interface"
  shows "i \<le> 16 \<Longrightarrow>
    fst (addStaticScan interface a i j cur c) =
      (case find (slotHolds (staticTable c) a) [i..<16] of
         Some k \<Rightarrow> k
       | None \<Rightarrow>
           if j = 16
           then (case find (\<lambda>k. \<not> slotValid (staticTable c k)) [i..<16] of
                   Some k \<Rightarrow> k | None \<Rightarrow> 16)
           else j) \<and>
    staticTable (snd (addStaticScan interface a i j cur c)) = staticTable c \<and>
    written (snd (addStaticScan interface a i j cur c)) =
      written c @ map (\<lambda>k. (KSZ9477_STATIC_MCAST_TABLE_CTRL, staticReadCommand k))
        [i..<(case find (slotHolds (staticTable c) a) [i..<16] of
                Some k \<Rightarrow> k + 1 | None \<Rightarrow> 16)]"
proof (induction "16 - i" arbitrary: i j cur c)
  case 0
  then have "i = 16" by simp
  moreover have "addStaticScan interface a 16 j cur c = (j, c)"
    by (subst addStaticScan.simps) (simp add: KSZ9477_STATIC_MAC_TABLE_SIZE_def)
  ultimately show ?case
    by simp
next
  case (Suc n)
  then have i: "i < 16" and n: "n = 16 - (i + 1)" and le: "i + 1 \<le> 16"
    by simp_all
  note IH = Suc(1) [OF n le]
  obtain error cur' c' where g: "ksz9477GetStaticFdbEntry interface i cur c = (error, cur', c')"
    by (cases "ksz9477GetStaticFdbEntry interface i cur c") auto
  from getStatic_spi [OF spi i, where cur = cur and c = c] g
  have e: "error = (if slotValid (staticTable c i) then NO_ERROR else ERROR_INVALID_ENTRY)"
    "slotValid (staticTable c i) \<Longrightarrow> cur' = slotEntry (staticTable c i)"
    "staticTable c' = staticTable c"
    "written c' = written c @ [(KSZ9477_STATIC_MCAST_TABLE_CTRL, staticReadCommand i)]"
    by simp_all
  have unfold: "addStaticScan interface a i j cur c =
      (if error = NO_ERROR then
         (if macCompAddr (fdbMacAddr cur') a then (i, c')
          else addStaticScan interface a (i + 1) j cur' c')
       else addStaticScan interface a (i + 1) (if j = 16 then i else j) cur' c')"
    using i by (subst addStaticScan.simps) (simp add: g KSZ9477_STATIC_MAC_TABLE_SIZE_def)
  have upt: "[i..<16] = i # [i + 1..<16]"
    using i by (simp add: upt_conv_Cons)
  have f1: "find (slotHolds (staticTable c) a) [i..<16] =
      (if slotHolds (staticTable c) a i then Some i
       else find (slotHolds (staticTable c) a) [i + 1..<16])"
    by (subst upt) simp
  have f2: "find (\<lambda>k. \<not> slotValid (staticTable c k)) [i..<16] =
      (if \<not> slotValid (staticTable c i) then Some i
       else find (\<lambda>k. \<not> slotValid (staticTable c k)) [i + 1..<16])"
    by (subst upt) simp
  consider (hit) "slotValid (staticTable c i)" "macCompAddr (fdbMacAddr cur') a"
    | (other) "slotValid (staticTable c i)" "\<not> macCompAddr (fdbMacAddr cur') a"
    | (free) "\<not> slotValid (staticTable c i)"
    by blast
  then show ?case
  proof cases
    case hit
    with e show ?thesis
      by (simp add: unfold f1 slotHolds_def)
  next
    case other
    then have "\<not> slotHolds (staticTable c) a i"
      using e(2) by (simp add: slotHolds_def)
    moreover have "i + 1 \<le> (case find (slotHolds (staticTable c) a) [i + 1..<16] of
        Some k \<Rightarrow> k + 1 | None \<Rightarrow> 16)"
      using i by (auto split: option.splits simp: find_Some_iff)
    then have "[i..<(case find (slotHolds (staticTable c) a) [i + 1..<16] of
        Some k \<Rightarrow> k + 1 | None \<Rightarrow> 16)] =
      i # [i + 1..<(case find (slotHolds (staticTable c) a) [i + 1..<16] of
        Some k \<Rightarrow> k + 1 | None \<Rightarrow> 16)]"
      by (simp add: upt_conv_Cons)
    ultimately show ?thesis
      using other e IH [of j cur' c', unfolded e(3)]
      unfolding unfold f1 f2 by simp
  next
    case free
    then have "\<not> slotHolds (staticTable c) a i"
      by (simp add: slotHolds_def)
    moreover have "i + 1 \<le> (case find (slotHolds (staticTable c) a) [i + 1..<16] of
        Some k \<Rightarrow> k + 1 | None \<Rightarrow> 16)"
      using i by (auto split: option.splits simp: find_Some_iff)
    then have "[i..<(case find (slotHolds (staticTable c) a) [i + 1..<16] of
        Some k \<Rightarrow> k + 1 | None \<Rightarrow> 16)] =
      i # [i + 1..<(case find (slotHolds (staticTable c) a) [i + 1..<16] of
        Some k \<Rightarrow> k + 1 | None \<Rightarrow> 16)]"
      by (simp add: upt_conv_Cons)
    ultimately show ?thesis
      using free e i IH [of "if j = 16 then i else j" cur' c', unfolded e(3)]
      unfolding unfold f1 f2 by (simp split: option.splits)
  qed
qed

lemma static_write_command:
  assumes "i < 16"
  shows "staticTable (chipWrite32 KSZ9477_STATIC_MCAST_TABLE_CTRL (staticWriteCommand i) c) =
           (staticTable c)(i := chipEntryRegs c)"
  using staticWriteCommand_fields [OF assms]
  by (simp add: chipWrite32_def Let_def chipEntryRegs_def)

lemma write_entry_regs:
  assumes "address \<in> {KSZ9477_TABLE_ENTRY1, KSZ9477_TABLE_ENTRY2, KSZ9477_TABLE_ENTRY3,
      KSZ9477_TABLE_ENTRY4}"
  shows "chipWrite32 address data c =
           c\<lparr>written := written c @ [(address, data)], reg32 := (reg32 c)(address := data)\<rparr>"
  using assms by (auto simp: chipWrite32_def Let_def ksz_addrs)

lemma staticSlot_cases:
  "staticSlot T a =
     (case find (slotHolds T a) [0..<16] of
        Some k \<Rightarrow> Some k
      | None \<Rightarrow> find (\<lambda>k. \<not> slotValid (T k)) [0..<16])"
  unfolding staticSlot_def KSZ9477_STATIC_MAC_TABLE_SIZE_def ..

lemma staticSlot_less: "staticSlot T a = Some j \<Longrightarrow> j < 16"
  by (auto simp: staticSlot_cases find_Some_iff split: option.splits)

lemma staticSlot_None:
  "staticSlot T a = None \<longleftrightarrow>
     (\<forall>k < 16. slotValid (T k) \<and> \<not> macCompAddr (fdbMacAddr (slotEntry (T k))) a)"
  by (auto simp: staticSlot_cases find_None_iff find_Some_iff slotHolds_def
      split: option.splits)

lemma addStatic_spi:
  assumes spi: "spiDriver interface"
  shows "staticSlot (staticTable c) (fdbMacAddr entry) = None \<Longrightarrow>
           fst (ksz9477AddStaticFdbEntry interface entry c) = ERROR_TABLE_FULL \<and>
           staticTable (snd (ksz9477AddStaticFdbEntry interface entry c)) = staticTable c \<and>
           written (snd (ksz9477AddStaticFdbEntry interface entry c)) =
             written c @ map (\<lambda>k. (KSZ9477_STATIC_MCAST_TABLE_CTRL, staticReadCommand k)) [0..<16]"
    and "staticSlot (staticTable c) (fdbMacAddr entry) = Some j \<Longrightarrow>
           fst (ksz9477AddStaticFdbEntry interface entry c) = NO_ERROR \<and>
           staticTable (snd (ksz9477AddStaticFdbEntry interface entry c)) =
             (staticTable c)(j := entryRecord entry)"
proof -
  let ?a = "fdbMacAddr entry"
  let ?scan = "addStaticScan interface ?a 0 16 uninitialisedEntry c"
  note sc = addStaticScan_spi [OF spi, of 0 ?a 16 uninitialisedEntry c, simplified]
  {
    assume none: "staticSlot (staticTable c) ?a = None"
    then have "find (slotHolds (staticTable c) ?a) [0..<16] = None"
      "find (\<lambda>k. \<not> slotValid (staticTable c k)) [0..<16] = None"
      by (auto simp: staticSlot_cases split: option.splits)
    with sc have "fst ?scan = 16" "staticTable (snd ?scan) = staticTable c"
      "written (snd ?scan) =
         written c @ map (\<lambda>k. (KSZ9477_STATIC_MCAST_TABLE_CTRL, staticReadCommand k)) [0..<16]"
      by simp_all
    then show "fst (ksz9477AddStaticFdbEntry interface entry c) = ERROR_TABLE_FULL \<and>
           staticTable (snd (ksz9477AddStaticFdbEntry interface entry c)) = staticTable c \<and>
           written (snd (ksz9477AddStaticFdbEntry interface entry c)) =
             written c @ map (\<lambda>k. (KSZ9477_STATIC_MCAST_TABLE_CTRL, staticReadCommand k)) [0..<16]"
      by (simp add: ksz9477AddStaticFdbEntry_def KSZ9477_STATIC_MAC_TABLE_SIZE_def split_def)
  }
  {
    assume some: "staticSlot (staticTable c) ?a = Some j"
    then have j: "j < 16"
      by (rule staticSlot_less)
    from some sc have scan: "fst ?scan = j" "staticTable (snd ?scan) = staticTable c"
      by (auto simp: staticSlot_cases split: option.splits)
    have e: "address \<in> {KSZ9477_TABLE_ENTRY1, KSZ9477_TABLE_ENTRY2, KSZ9477_TABLE_ENTRY3,
        KSZ9477_TABLE_ENTRY4}"
      if "address = KSZ9477_TABLE_ENTRY1 \<or> address = KSZ9477_TABLE_ENTRY2 \<or>
          address = KSZ9477_TABLE_ENTRY3 \<or> address = KSZ9477_TABLE_ENTRY4" for address
      using that by auto
    show "fst (ksz9477AddStaticFdbEntry interface entry c) = NO_ERROR \<and>
           staticTable (snd (ksz9477AddStaticFdbEntry interface entry c)) =
             (staticTable c)(j := entryRecord entry)"
      using spi j scan
      by (simp add: ksz9477AddStaticFdbEntry_def KSZ9477_STATIC_MAC_TABLE_SIZE_def split_def
          Let_def ksz9477WriteSwitchReg32_def pollStartFinish_spi static_write_command
          write_entry_regs [OF e] chipEntryRegs_def entryRecord_def)
         (simp add: ksz_addrs)
  }
qed

lemma byte_of_word16:
  fixes x y :: u8
  shows "ucast (drop_bit 8 (push_bit 8 (ucast x) OR (ucast y :: u32)) AND 0xFF) = x"
    and "ucast ((push_bit 8 (ucast x) OR (ucast y :: u32)) AND 0xFF) = y"
proof -
  have m: "(0xFF :: u32) = mask 8"
    by (simp add: mask_eq_exp_minus_1)
  show "ucast (drop_bit 8 (push_bit 8 (ucast x) OR (ucast y :: u32)) AND 0xFF) = x"
    unfolding m by (rule bit_word_eqI) (auto simp: bit_simps dest: bit_imp_le_length)
  show "ucast ((push_bit 8 (ucast x) OR (ucast y :: u32)) AND 0xFF) = y"
    unfolding m by (rule bit_word_eqI) (auto simp: bit_simps dest: bit_imp_le_length)
qed

lemma byte_of_word32:
  fixes w x y z :: u8
  defines "v \<equiv> push_bit 24 (ucast w) OR push_bit 16 (ucast x) OR push_bit 8 (ucast y) OR
    (ucast z :: u32)"
  shows "ucast (drop_bit 24 v AND 0xFF) = w"
    and "ucast (drop_bit 16 v AND 0xFF) = x"
    and "ucast (drop_bit 8 v AND 0xFF) = y"
    and "ucast (v AND 0xFF) = z"
proof -
  have m: "(0xFF :: u32) = mask 8"
    by (simp add: mask_eq_exp_minus_1)
  show "ucast (drop_bit 24 v AND 0xFF) = w"
    unfolding m v_def by (rule bit_word_eqI) (auto simp: bit_simps dest: bit_imp_le_length)
  show "ucast (drop_bit 16 v AND 0xFF) = x"
    unfolding m v_def by (rule bit_word_eqI) (auto simp: bit_simps dest: bit_imp_le_length)
  show "ucast (drop_bit 8 v AND 0xFF) = y"
    unfolding m v_def by (rule bit_word_eqI) (auto simp: bit_simps dest: bit_imp_le_length)
  show "ucast (v AND 0xFF) = z"
    unfolding m v_def by (rule bit_word_eqI) (auto simp: bit_simps dest: bit_imp_le_length)
qed

lemma ports_of_word:
  fixes d :: u32
  shows "((d AND 0x7F) OR 0x80000000) AND 0x7F = d AND 0x7F"
    and "((d AND 0x7F) OR 0x80000000) AND 0x80000000 \<noteq> 0"
    and "(d AND 0x7F) AND 0x80000000 = 0"
proof -
  have z: "(0x7F :: u32) AND 0x80000000 = 0" "(0x80000000 :: u32) AND 0x7F = 0"
    by simp_all
  show "((d AND 0x7F) OR 0x80000000) AND 0x7F = d AND 0x7F"
    by (simp add: bit.conj_disj_distrib2 z and.assoc)
  show "(d AND 0x7F) AND 0x80000000 = 0"
    by (simp add: and.assoc z)
  then show "((d AND 0x7F) OR 0x80000000) AND 0x80000000 \<noteq> 0"
    by (simp add: bit.conj_disj_distrib2)
qed

lemma slotEntry_entryRecord: "slotEntry (entryRecord entry) = storedEntry entry"
proof -
  let ?m = "fdbMacAddr entry"
  let ?e2 = "(if destPorts entry = SWITCH_CPU_PORT_MASK then KSZ9477_PORT6_MASK
       else destPorts entry AND KSZ9477_PORT_MASK) OR
      (if override entry then KSZ9477_STATIC_TABLE_ENTRY2_OVERRIDE else 0)"
  have p: "(if destPorts entry = SWITCH_CPU_PORT_MASK then KSZ9477_PORT6_MASK
       else destPorts entry AND KSZ9477_PORT_MASK) =
      (if destPorts entry = SWITCH_CPU_PORT_MASK then 0x20 else destPorts entry) AND 0x7F"
    by (simp add: KSZ9477_PORT6_MASK_def KSZ9477_PORT_MASK_def)
  have ports: "?e2 AND KSZ9477_STATIC_TABLE_ENTRY2_PORT_FORWARD =
      (if destPorts entry = SWITCH_CPU_PORT_MASK then KSZ9477_PORT6_MASK
       else destPorts entry AND KSZ9477_PORT_MASK)"
    unfolding p
    by (simp add: ports_of_word KSZ9477_STATIC_TABLE_ENTRY2_PORT_FORWARD_def
        KSZ9477_STATIC_TABLE_ENTRY2_OVERRIDE_def and.assoc)
  have ovr: "(?e2 AND KSZ9477_STATIC_TABLE_ENTRY2_OVERRIDE \<noteq> 0) = override entry"
    unfolding p
    by (simp add: ports_of_word KSZ9477_STATIC_TABLE_ENTRY2_OVERRIDE_def)
  have "slotEntry (entryRecord entry) =
      \<lparr>fdbMacAddr = \<lparr>b0 = b0 ?m, b1 = b1 ?m, b2 = b2 ?m, b3 = b3 ?m, b4 = b4 ?m, b5 = b5 ?m\<rparr>,
       srcPort = 0,
       destPorts = (if destPorts entry = SWITCH_CPU_PORT_MASK then KSZ9477_PORT6_MASK
                    else destPorts entry AND KSZ9477_PORT_MASK),
       override = override entry\<rparr>"
    unfolding slotEntry_def entryRecord_def
    by (simp only: prod.case byte_of_word16 byte_of_word32 ports ovr)
  then show ?thesis
    by (simp add: storedEntry_def)
qed

lemma slotValid_entryRecord: "slotValid (entryRecord entry)"
  by (simp add: slotValid_def entryRecord_def KSZ9477_STATIC_TABLE_ENTRY1_VALID_def)

text \<open>
  C7, as the driver implements it, with the switch on SPI. \<^verbatim>\<open>ksz9477AddStaticFdbEntry\<close>
  scans the sixteen slots of the static MAC table and writes the record of the entry
  to the first slot that already holds the address, if there is one, and otherwise to
  the first free slot. It returns \<open>ERROR_TABLE_FULL\<close> exactly when every slot is valid
  and holds another address; then the table is unchanged and the chip has received
  the sixteen read commands of the scan and nothing else. After a successful add,
  \<^verbatim>\<open>ksz9477GetStaticFdbEntry\<close> at the written index returns the same address and
  override flag, source port 0, and the destination ports as stored: port 6 for the
  port mask of the CPU port, and otherwise the ports of the entry cut to the seven
  ports of the switch.
\<close>

theorem C7_add_static_entry:
  assumes "spiDriver interface"
  shows "(fst (ksz9477AddStaticFdbEntry interface entry chip) = ERROR_TABLE_FULL \<longleftrightarrow>
            (\<forall>k < 16. slotValid (staticTable chip k) \<and>
               \<not> macCompAddr (fdbMacAddr (slotEntry (staticTable chip k))) (fdbMacAddr entry))) \<and>
         (staticSlot (staticTable chip) (fdbMacAddr entry) = None \<longrightarrow>
            fst (ksz9477AddStaticFdbEntry interface entry chip) = ERROR_TABLE_FULL \<and>
            staticTable (snd (ksz9477AddStaticFdbEntry interface entry chip)) = staticTable chip \<and>
            written (snd (ksz9477AddStaticFdbEntry interface entry chip)) =
              written chip @
              map (\<lambda>k. (KSZ9477_STATIC_MCAST_TABLE_CTRL, staticReadCommand k)) [0..<16]) \<and>
         (\<forall>j. staticSlot (staticTable chip) (fdbMacAddr entry) = Some j \<longrightarrow>
            j < 16 \<and>
            fst (ksz9477AddStaticFdbEntry interface entry chip) = NO_ERROR \<and>
            staticTable (snd (ksz9477AddStaticFdbEntry interface entry chip)) =
              (staticTable chip)(j := entryRecord entry) \<and>
            fst (ksz9477GetStaticFdbEntry interface j cur
                   (snd (ksz9477AddStaticFdbEntry interface entry chip))) = NO_ERROR \<and>
            fst (snd (ksz9477GetStaticFdbEntry interface j cur
                   (snd (ksz9477AddStaticFdbEntry interface entry chip)))) = storedEntry entry)"
proof -
  let ?add = "ksz9477AddStaticFdbEntry interface entry chip"
  note a = addStatic_spi [OF assms, of chip entry]
  have some: "j < 16 \<and> fst ?add = NO_ERROR \<and>
      staticTable (snd ?add) = (staticTable chip)(j := entryRecord entry) \<and>
      fst (ksz9477GetStaticFdbEntry interface j cur (snd ?add)) = NO_ERROR \<and>
      fst (snd (ksz9477GetStaticFdbEntry interface j cur (snd ?add))) = storedEntry entry"
    if s: "staticSlot (staticTable chip) (fdbMacAddr entry) = Some j" for j
  proof -
    from s have j: "j < 16" by (rule staticSlot_less)
    from a(2) [OF s] have t: "fst ?add = NO_ERROR"
      "staticTable (snd ?add) = (staticTable chip)(j := entryRecord entry)"
      by simp_all
    then have v: "slotValid (staticTable (snd ?add) j)"
      "slotEntry (staticTable (snd ?add) j) = storedEntry entry"
      by (simp_all add: slotValid_entryRecord slotEntry_entryRecord)
    from getStatic_spi(1,2) [OF assms j, where c = "snd ?add" and cur = cur] v j t
    show ?thesis by simp
  qed
  have full: "fst ?add = ERROR_TABLE_FULL \<longleftrightarrow>
      staticSlot (staticTable chip) (fdbMacAddr entry) = None"
  proof (cases "staticSlot (staticTable chip) (fdbMacAddr entry)")
    case None
    with a(1) show ?thesis by simp
  next
    case (Some j)
    with some [of j] show ?thesis by simp
  qed
  show ?thesis
    using some a(1) unfolding full staticSlot_None by blast
qed

lemma staticSlot_reset:
  "staticSlot (staticTable ksz9477ResetChip) a = Some 0"
proof -
  have "find (slotHolds (staticTable ksz9477ResetChip) a) [0..<16] = None"
    by (simp add: find_None_iff slotHolds_def slotValid_def ksz9477ResetChip_def)
  moreover have "find (\<lambda>k. \<not> slotValid (staticTable ksz9477ResetChip k)) [0..<16] = Some 0"
    by (simp add: upt_conv_Cons slotValid_def ksz9477ResetChip_def)
  ultimately show ?thesis
    by (simp add: staticSlot_cases)
qed

lemma spi_example: "spiDriver exampleInterface"
  by (simp add: exampleInterface_def)

text \<open>
  C7 as stated fails: an entry for the CPU port, added to an empty table, is written to
  slot 0, and reading slot 0 back gives the destination ports \<open>0x20\<close> (port 6), not the
  port mask of the CPU port that was added.
\<close>

theorem C7_round_trip_counterexample:
  "fst (ksz9477AddStaticFdbEntry exampleInterface cpuPortEntry ksz9477ResetChip) = NO_ERROR \<and>
   staticTable (snd (ksz9477AddStaticFdbEntry exampleInterface cpuPortEntry ksz9477ResetChip)) 0 =
     entryRecord cpuPortEntry \<and>
   fst (ksz9477GetStaticFdbEntry exampleInterface 0 uninitialisedEntry
          (snd (ksz9477AddStaticFdbEntry exampleInterface cpuPortEntry ksz9477ResetChip))) =
     NO_ERROR \<and>
   destPorts cpuPortEntry = 0x80000000 \<and>
   destPorts (fst (snd (ksz9477GetStaticFdbEntry exampleInterface 0 uninitialisedEntry
          (snd (ksz9477AddStaticFdbEntry exampleInterface cpuPortEntry ksz9477ResetChip))))) =
     0x20"
proof -
  let ?add = "ksz9477AddStaticFdbEntry exampleInterface cpuPortEntry ksz9477ResetChip"
  from addStatic_spi(2) [OF spi_example staticSlot_reset]
  have t: "fst ?add = NO_ERROR"
    "staticTable (snd ?add) = (staticTable ksz9477ResetChip)(0 := entryRecord cpuPortEntry)"
    by simp_all
  then have v: "slotValid (staticTable (snd ?add) 0)"
    "slotEntry (staticTable (snd ?add) 0) = storedEntry cpuPortEntry"
    by (simp_all add: slotValid_entryRecord slotEntry_entryRecord)
  from getStatic_spi(1,2) [OF spi_example, where i = 0 and c = "snd ?add"
      and cur = uninitialisedEntry] v
  have "fst (ksz9477GetStaticFdbEntry exampleInterface 0 uninitialisedEntry (snd ?add)) = NO_ERROR"
    "fst (snd (ksz9477GetStaticFdbEntry exampleInterface 0 uninitialisedEntry (snd ?add))) =
       storedEntry cpuPortEntry"
    by simp_all
  with t show ?thesis
    by (simp add: storedEntry_def cpuPortEntry_def SWITCH_CPU_PORT_MASK_def KSZ9477_PORT6_MASK_def)
qed

lemma staticSlot_full:
  "staticSlot (staticTable fullTableChip) (fdbMacAddr cpuPortEntry) = None"
  unfolding staticSlot_None
  by (simp add: fullTableChip_def slotValid_def slotEntry_def macCompAddr_def macBytes_def
      cpuPortEntry_def KSZ9477_STATIC_TABLE_ENTRY1_VALID_def)

theorem C7_add_static_entry_witness:
  "fst (ksz9477AddStaticFdbEntry exampleInterface cpuPortEntry ksz9477ResetChip) = NO_ERROR \<and>
   staticTable (snd (ksz9477AddStaticFdbEntry exampleInterface cpuPortEntry ksz9477ResetChip)) =
     (staticTable ksz9477ResetChip)(0 := entryRecord cpuPortEntry) \<and>
   fst (snd (ksz9477GetStaticFdbEntry exampleInterface 0 uninitialisedEntry
          (snd (ksz9477AddStaticFdbEntry exampleInterface cpuPortEntry ksz9477ResetChip)))) =
     storedEntry cpuPortEntry \<and>
   fst (ksz9477AddStaticFdbEntry exampleInterface cpuPortEntry fullTableChip) = ERROR_TABLE_FULL \<and>
   staticTable (snd (ksz9477AddStaticFdbEntry exampleInterface cpuPortEntry fullTableChip)) =
     staticTable fullTableChip"
  using C7_add_static_entry [OF spi_example, of cpuPortEntry ksz9477ResetChip uninitialisedEntry]
    C7_add_static_entry [OF spi_example, of cpuPortEntry fullTableChip uninitialisedEntry]
    staticSlot_reset [of "fdbMacAddr cpuPortEntry"] staticSlot_full
  by simp

subsection \<open>Dynamic MAC table of the KSZ9477 driver\<close>

lemma alu_status_bits:
  fixes r :: u32
  defines "idle \<equiv> r AND NOT (KSZ9477_ALU_TABLE_CTRL_VALID_ENTRY_OR_SEARCH_END OR
                    KSZ9477_ALU_TABLE_CTRL_VALID)"
  shows "idle AND KSZ9477_ALU_TABLE_CTRL_VALID_ENTRY_OR_SEARCH_END = 0"
    and "(idle OR KSZ9477_ALU_TABLE_CTRL_VALID_ENTRY_OR_SEARCH_END OR
            KSZ9477_ALU_TABLE_CTRL_VALID) AND
           KSZ9477_ALU_TABLE_CTRL_VALID_ENTRY_OR_SEARCH_END \<noteq> 0"
    and "(idle OR KSZ9477_ALU_TABLE_CTRL_VALID_ENTRY_OR_SEARCH_END) AND
           KSZ9477_ALU_TABLE_CTRL_VALID_ENTRY_OR_SEARCH_END \<noteq> 0"
    and "(idle OR KSZ9477_ALU_TABLE_CTRL_VALID_ENTRY_OR_SEARCH_END OR
            KSZ9477_ALU_TABLE_CTRL_VALID) AND KSZ9477_ALU_TABLE_CTRL_VALID \<noteq> 0"
    and "(idle OR KSZ9477_ALU_TABLE_CTRL_VALID_ENTRY_OR_SEARCH_END) AND
           KSZ9477_ALU_TABLE_CTRL_VALID = 0"
proof -
  have i: "idle AND 0x80000000 = 0" "idle AND 0x40000000 = 0"
    unfolding idle_def KSZ9477_ALU_TABLE_CTRL_VALID_ENTRY_OR_SEARCH_END_def
      KSZ9477_ALU_TABLE_CTRL_VALID_def
    by (simp_all add: and.assoc)
  show "idle AND KSZ9477_ALU_TABLE_CTRL_VALID_ENTRY_OR_SEARCH_END = 0"
    "(idle OR KSZ9477_ALU_TABLE_CTRL_VALID_ENTRY_OR_SEARCH_END OR
            KSZ9477_ALU_TABLE_CTRL_VALID) AND
           KSZ9477_ALU_TABLE_CTRL_VALID_ENTRY_OR_SEARCH_END \<noteq> 0"
    "(idle OR KSZ9477_ALU_TABLE_CTRL_VALID_ENTRY_OR_SEARCH_END) AND
           KSZ9477_ALU_TABLE_CTRL_VALID_ENTRY_OR_SEARCH_END \<noteq> 0"
    "(idle OR KSZ9477_ALU_TABLE_CTRL_VALID_ENTRY_OR_SEARCH_END OR
            KSZ9477_ALU_TABLE_CTRL_VALID) AND KSZ9477_ALU_TABLE_CTRL_VALID \<noteq> 0"
    "(idle OR KSZ9477_ALU_TABLE_CTRL_VALID_ENTRY_OR_SEARCH_END) AND
           KSZ9477_ALU_TABLE_CTRL_VALID = 0"
    using i
    by (simp_all add: KSZ9477_ALU_TABLE_CTRL_VALID_ENTRY_OR_SEARCH_END_def
        KSZ9477_ALU_TABLE_CTRL_VALID_def bit.conj_disj_distrib2)
qed

lemma aluStatus_bits:
  "aluIdle c AND KSZ9477_ALU_TABLE_CTRL_VALID_ENTRY_OR_SEARCH_END = 0"
  "aluStatus c AND KSZ9477_ALU_TABLE_CTRL_VALID_ENTRY_OR_SEARCH_END \<noteq> 0"
  "aluStatus c AND KSZ9477_ALU_TABLE_CTRL_VALID \<noteq> 0 \<longleftrightarrow> aluPos c < length (aluTable c)"
  unfolding aluStatus_def aluIdle_def
  using alu_status_bits [of "reg32 c KSZ9477_ALU_TABLE_CTRL"]
  by auto

lemma read_alu_ctrl:
  assumes "spiDriver interface" "aluSearching c"
  shows "aluBusy c = 0 \<Longrightarrow>
           ksz9477ReadSwitchReg32 interface KSZ9477_ALU_TABLE_CTRL c = (aluStatus c, c)"
    and "0 < aluBusy c \<Longrightarrow>
           ksz9477ReadSwitchReg32 interface KSZ9477_ALU_TABLE_CTRL c =
             (aluIdle c, c\<lparr>aluBusy := aluBusy c - 1\<rparr>)"
  using assms
  unfolding ksz9477ReadSwitchReg32_def chipRead32_def aluStatus_def aluIdle_def Let_def
  by (simp_all add: ksz_addrs)

lemma poll_alu_post:
  "pollValidEntryOrSearchEnd interface c = Some y \<Longrightarrow>
     fst y AND KSZ9477_ALU_TABLE_CTRL_VALID_ENTRY_OR_SEARCH_END \<noteq> 0"
proof (erule pollValidEntryOrSearchEnd.raw_induct
    [rotated, where P = "\<lambda>_ _ y. fst y AND KSZ9477_ALU_TABLE_CTRL_VALID_ENTRY_OR_SEARCH_END \<noteq> 0"],
    goal_cases)
  case 1
  then show ?case
    by (auto simp: split_def split: if_splits)
qed

lemma poll_alu_needs_spi:
  "pollValidEntryOrSearchEnd interface c = Some y \<Longrightarrow> spiDriver interface"
proof (erule pollValidEntryOrSearchEnd.raw_induct [rotated, where P = "\<lambda>i _ _. spiDriver i"],
    goal_cases)
  case 1
  then show ?case
    by (auto simp: ksz9477ReadSwitchReg32_def split_def split: if_splits)
qed

lemma poll_alu_mdio:
  "\<not> spiDriver interface \<Longrightarrow> pollValidEntryOrSearchEnd interface c = None"
  using poll_alu_needs_spi [of interface c] by (cases "pollValidEntryOrSearchEnd interface c") auto

lemma poll_alu_spi:
  assumes "spiDriver interface"
  shows "aluSearching c \<Longrightarrow>
     pollValidEntryOrSearchEnd interface c = Some (aluStatus c, c\<lparr>aluBusy := 0\<rparr>)"
proof (induction "aluBusy c" arbitrary: c)
  case 0
  then have "c\<lparr>aluBusy := 0\<rparr> = c"
    by simp
  with 0 assms show ?case
    by (subst pollValidEntryOrSearchEnd.simps) (simp add: read_alu_ctrl aluStatus_bits)
next
  case (Suc n)
  from Suc(2) have b: "0 < aluBusy c" "aluBusy c - 1 = n"
    by simp_all
  have "n = aluBusy (c\<lparr>aluBusy := n\<rparr>)" "aluSearching (c\<lparr>aluBusy := n\<rparr>)"
    using Suc(3) by simp_all
  note IH = Suc(1) [OF this]
  have "aluStatus (c\<lparr>aluBusy := n\<rparr>) = aluStatus c"
    by (simp add: aluStatus_def aluIdle_def)
  then show ?case
    using assms b Suc(3)
    by (subst pollValidEntryOrSearchEnd.simps) (simp add: read_alu_ctrl aluStatus_bits IH)
qed

lemma alu_stop:
  "reg32 (chipWrite32 KSZ9477_ALU_TABLE_CTRL 0 c) KSZ9477_ALU_TABLE_CTRL = 0"
  "\<not> aluSearching (chipWrite32 KSZ9477_ALU_TABLE_CTRL 0 c)"
  "written (chipWrite32 KSZ9477_ALU_TABLE_CTRL 0 c) = written c @ [(KSZ9477_ALU_TABLE_CTRL, 0)]"
  "aluTable (chipWrite32 KSZ9477_ALU_TABLE_CTRL 0 c) = aluTable c"
  by (simp_all add: chipWrite32_def Let_def ksz_addrs)

lemma alu_restart:
  fixes c :: Ksz9477Chip
  defines "c2 \<equiv> chipWrite32 KSZ9477_ALU_TABLE_CTRL searchCommand
                   (chipWrite32 KSZ9477_ALU_TABLE_CTRL 0 c)"
  shows "aluSearching c2" and "aluPos c2 = 0" and "aluTable c2 = aluTable c"
    and "written c2 = written c @ [(KSZ9477_ALU_TABLE_CTRL, 0),
           (KSZ9477_ALU_TABLE_CTRL, searchCommand)]"
    and "aluTable c \<noteq> [] \<Longrightarrow> chipEntryRegs c2 = aluTable c ! 0"
proof -
  have cmd: "searchCommand AND KSZ9477_ALU_TABLE_CTRL_START_FINISH \<noteq> 0"
    "searchCommand AND KSZ9477_ALU_TABLE_CTRL_ACTION = KSZ9477_ALU_TABLE_CTRL_ACTION_SEARCH"
    by (simp_all add: searchCommand_def KSZ9477_ALU_TABLE_CTRL_START_FINISH_def
        KSZ9477_ALU_TABLE_CTRL_ACTION_def KSZ9477_ALU_TABLE_CTRL_ACTION_SEARCH_def)
  have c2: "c2 = chipAluSeek (c\<lparr>written := written c @ [(KSZ9477_ALU_TABLE_CTRL, 0),
           (KSZ9477_ALU_TABLE_CTRL, searchCommand)],
      reg32 := (reg32 c)(KSZ9477_ALU_TABLE_CTRL := searchCommand),
      aluSearching := True, aluPos := 0\<rparr>)"
    unfolding c2_def using cmd
    by (simp add: chipWrite32_def Let_def ksz_addrs)
  show "aluSearching c2" "aluPos c2 = 0" "aluTable c2 = aluTable c"
    "written c2 = written c @ [(KSZ9477_ALU_TABLE_CTRL, 0),
           (KSZ9477_ALU_TABLE_CTRL, searchCommand)]"
    unfolding c2 by (simp_all add: chipAluSeek_def chipLoadEntry_def Let_def split_def)
  show "chipEntryRegs c2 = aluTable c ! 0" if "aluTable c \<noteq> []"
    unfolding c2 using that
    by (simp add: chipAluSeek_def chipLoadEntry_def Let_def split_def chipEntryRegs_def
        ksz_addrs)
qed

lemma getDynamic_restart:
  "ksz9477GetDynamicFdbEntry interface 0 entry c =
     ksz9477GetDynamicFdbEntry interface 1 entry
       (ksz9477WriteSwitchReg32 interface KSZ9477_ALU_TABLE_CTRL searchCommand
          (ksz9477WriteSwitchReg32 interface KSZ9477_ALU_TABLE_CTRL 0 c))"
  by (simp add: ksz9477GetDynamicFdbEntry_def Let_def searchCommand_def)

lemma getDynamic_result:
  assumes "ksz9477GetDynamicFdbEntry interface index entry chip = Some r"
  shows "\<exists>v c. pollValidEntryOrSearchEnd interface
                 (if index = 0
                  then ksz9477WriteSwitchReg32 interface KSZ9477_ALU_TABLE_CTRL searchCommand
                         (ksz9477WriteSwitchReg32 interface KSZ9477_ALU_TABLE_CTRL 0 chip)
                  else chip) = Some (v, c) \<and>
               fst r = (if v AND KSZ9477_ALU_TABLE_CTRL_VALID \<noteq> 0 then NO_ERROR
                        else ERROR_END_OF_TABLE) \<and>
               (v AND KSZ9477_ALU_TABLE_CTRL_VALID = 0 \<longrightarrow>
                  snd r = (entry, ksz9477WriteSwitchReg32 interface KSZ9477_ALU_TABLE_CTRL 0 c))"
proof (cases "index = 0")
  case True
  with assms show ?thesis
    by (auto simp: ksz9477GetDynamicFdbEntry_def Let_def searchCommand_def split_def
        split: option.splits if_splits)
next
  case False
  with assms show ?thesis
    by (auto simp: ksz9477GetDynamicFdbEntry_def Let_def split_def
        split: option.splits if_splits)
qed

lemma getDynamic_searching:
  assumes "spiDriver interface" "index \<noteq> 0" "aluSearching c"
  shows "ksz9477GetDynamicFdbEntry interface index entry c =
           Some (if aluPos c < length (aluTable c)
                 then (NO_ERROR, learnedEntry (chipEntryRegs c),
                       snd (ksz9477ReadSwitchReg32 interface KSZ9477_TABLE_ENTRY4
                              (c\<lparr>aluBusy := 0\<rparr>)))
                 else (ERROR_END_OF_TABLE, entry,
                       chipWrite32 KSZ9477_ALU_TABLE_CTRL 0 (c\<lparr>aluBusy := 0\<rparr>)))"
  using assms read_entry_regs(4) [OF assms(1), of "c\<lparr>aluBusy := 0\<rparr>"]
  by (cases entry, cases "fdbMacAddr entry")
     (simp add: ksz9477GetDynamicFdbEntry_def poll_alu_spi aluStatus_bits Let_def split_def
      read_entry_regs(1-3) learnedEntry_def chipEntryRegs_def ksz9477WriteSwitchReg32_def)

text \<open>
  C8, as the driver implements it, with the switch on SPI. A call of
  \<^verbatim>\<open>ksz9477GetDynamicFdbEntry\<close> with index 0 first writes zero to the ALU table control
  register and then the search command, in whatever state an earlier enumeration left
  the search engine; it returns, with the first learned address decoded from the entry
  registers when there is one, and with \<open>ERROR_END_OF_TABLE\<close> after a further write of
  zero to the control register when there is none. Every call that returns has polled
  the control register until the valid-entry-or-search-end bit was set and gives
  \<open>NO_ERROR\<close> or \<open>ERROR_END_OF_TABLE\<close>; in the latter case the entry is untouched, the
  last write to the chip is the zero that stops the search, and the search engine is
  stopped. While a search is running, a call with another index returns the entry
  under the search cursor, or the end of the table.
\<close>

theorem C8_get_dynamic_entry:
  assumes "spiDriver interface"
  shows "(\<exists>chip'.
            ksz9477GetDynamicFdbEntry interface 0 entry chip =
              Some (if aluTable chip = [] then (ERROR_END_OF_TABLE, entry, chip')
                    else (NO_ERROR, learnedEntry (aluTable chip ! 0), chip')) \<and>
            written chip' =
              written chip @
              (KSZ9477_ALU_TABLE_CTRL, 0) # (KSZ9477_ALU_TABLE_CTRL, searchCommand) #
              (if aluTable chip = [] then [(KSZ9477_ALU_TABLE_CTRL, 0)] else []) \<and>
            aluSearching chip' = (aluTable chip \<noteq> [])) \<and>
         (\<forall>r. ksz9477GetDynamicFdbEntry interface index entry chip = Some r \<longrightarrow>
            (\<exists>v c. pollValidEntryOrSearchEnd interface
                     (if index = 0
                      then ksz9477WriteSwitchReg32 interface KSZ9477_ALU_TABLE_CTRL searchCommand
                             (ksz9477WriteSwitchReg32 interface KSZ9477_ALU_TABLE_CTRL 0 chip)
                      else chip) = Some (v, c) \<and>
                   v AND KSZ9477_ALU_TABLE_CTRL_VALID_ENTRY_OR_SEARCH_END \<noteq> 0 \<and>
                   fst r = (if v AND KSZ9477_ALU_TABLE_CTRL_VALID \<noteq> 0 then NO_ERROR
                            else ERROR_END_OF_TABLE)) \<and>
            (fst r = ERROR_END_OF_TABLE \<longrightarrow>
               fst (snd r) = entry \<and>
               reg32 (snd (snd r)) KSZ9477_ALU_TABLE_CTRL = 0 \<and>
               \<not> aluSearching (snd (snd r)) \<and>
               last (written (snd (snd r))) = (KSZ9477_ALU_TABLE_CTRL, 0))) \<and>
         (index \<noteq> 0 \<and> aluSearching chip \<longrightarrow>
            (\<exists>chip'.
               ksz9477GetDynamicFdbEntry interface index entry chip =
                 Some (if aluPos chip < length (aluTable chip)
                       then (NO_ERROR, learnedEntry (chipEntryRegs chip), chip')
                       else (ERROR_END_OF_TABLE, entry, chip'))))"
proof -
  let ?c1 = "ksz9477WriteSwitchReg32 interface KSZ9477_ALU_TABLE_CTRL 0 chip"
  let ?c2 = "ksz9477WriteSwitchReg32 interface KSZ9477_ALU_TABLE_CTRL searchCommand ?c1"
  have c2: "?c2 = chipWrite32 KSZ9477_ALU_TABLE_CTRL searchCommand
      (chipWrite32 KSZ9477_ALU_TABLE_CTRL 0 chip)"
    using assms by (simp add: ksz9477WriteSwitchReg32_def)
  note r = alu_restart [of chip, folded c2]
  have first: "\<exists>chip'.
            ksz9477GetDynamicFdbEntry interface 0 entry chip =
              Some (if aluTable chip = [] then (ERROR_END_OF_TABLE, entry, chip')
                    else (NO_ERROR, learnedEntry (aluTable chip ! 0), chip')) \<and>
            written chip' =
              written chip @
              (KSZ9477_ALU_TABLE_CTRL, 0) # (KSZ9477_ALU_TABLE_CTRL, searchCommand) #
              (if aluTable chip = [] then [(KSZ9477_ALU_TABLE_CTRL, 0)] else []) \<and>
            aluSearching chip' = (aluTable chip \<noteq> [])"
  proof (cases "aluTable chip = []")
    case True
    with r show ?thesis
      unfolding getDynamic_restart
      by (simp add: getDynamic_searching [OF assms] alu_stop)
  next
    case False
    with r show ?thesis
      unfolding getDynamic_restart
      by (simp add: getDynamic_searching [OF assms] read_entry_regs [OF assms])
  qed
  have any: "(\<exists>v c. pollValidEntryOrSearchEnd interface
                     (if index = 0 then ?c2 else chip) = Some (v, c) \<and>
                   v AND KSZ9477_ALU_TABLE_CTRL_VALID_ENTRY_OR_SEARCH_END \<noteq> 0 \<and>
                   fst r = (if v AND KSZ9477_ALU_TABLE_CTRL_VALID \<noteq> 0 then NO_ERROR
                            else ERROR_END_OF_TABLE)) \<and>
            (fst r = ERROR_END_OF_TABLE \<longrightarrow>
               fst (snd r) = entry \<and>
               reg32 (snd (snd r)) KSZ9477_ALU_TABLE_CTRL = 0 \<and>
               \<not> aluSearching (snd (snd r)) \<and>
               last (written (snd (snd r))) = (KSZ9477_ALU_TABLE_CTRL, 0))"
    if g: "ksz9477GetDynamicFdbEntry interface index entry chip = Some r" for r
  proof -
    let ?c = "if index = 0 then ?c2 else chip"
    from getDynamic_result [OF g] obtain v c
      where p: "pollValidEntryOrSearchEnd interface ?c = Some (v, c)"
        and e: "fst r = (if v AND KSZ9477_ALU_TABLE_CTRL_VALID \<noteq> 0 then NO_ERROR
                         else ERROR_END_OF_TABLE)"
          "v AND KSZ9477_ALU_TABLE_CTRL_VALID = 0 \<longrightarrow>
             snd r = (entry, ksz9477WriteSwitchReg32 interface KSZ9477_ALU_TABLE_CTRL 0 c)"
      by blast
    from poll_alu_post [OF p] have v: "v AND KSZ9477_ALU_TABLE_CTRL_VALID_ENTRY_OR_SEARCH_END \<noteq> 0"
      by simp
    from e assms have "fst r = (if v AND KSZ9477_ALU_TABLE_CTRL_VALID \<noteq> 0 then NO_ERROR
                            else ERROR_END_OF_TABLE) \<and>
          (fst r = ERROR_END_OF_TABLE \<longrightarrow>
             snd r = (entry, chipWrite32 KSZ9477_ALU_TABLE_CTRL 0 c))"
      by (auto simp: ksz9477WriteSwitchReg32_def split: if_splits)
    with p v show ?thesis
      by (auto simp: alu_stop)
  qed
  have next_entry: "\<exists>chip'.
               ksz9477GetDynamicFdbEntry interface index entry chip =
                 Some (if aluPos chip < length (aluTable chip)
                       then (NO_ERROR, learnedEntry (chipEntryRegs chip), chip')
                       else (ERROR_END_OF_TABLE, entry, chip'))"
    if "index \<noteq> 0" "aluSearching chip"
    using getDynamic_searching [OF assms that, of entry] by auto
  from first any next_entry show ?thesis
    by blast
qed

text \<open>
  C8 as stated fails: with no SPI driver (MDC/MDIO management) the register functions
  do nothing, the control register always reads as zero, and a call with index 0
  changes nothing in the chip and never returns.
\<close>

theorem C8_mdio_counterexample:
  "ksz9477GetDynamicFdbEntry mdioInterface 0 uninitialisedEntry learnedChip = None \<and>
   ksz9477WriteSwitchReg32 mdioInterface KSZ9477_ALU_TABLE_CTRL searchCommand
     (ksz9477WriteSwitchReg32 mdioInterface KSZ9477_ALU_TABLE_CTRL 0 learnedChip) = learnedChip"
proof -
  have m: "\<not> spiDriver mdioInterface"
    by (simp add: mdioInterface_def)
  then show ?thesis
    by (simp add: ksz9477GetDynamicFdbEntry_def Let_def poll_alu_mdio ksz9477WriteSwitchReg32_def)
qed

lemma learnedEntry_example:
  "learnedEntry (0, 0x01, 0x0011, 0x22334455) =
     \<lparr>fdbMacAddr = \<lparr>b0 = 0x00, b1 = 0x11, b2 = 0x22, b3 = 0x33, b4 = 0x44, b5 = 0x55\<rparr>,
      srcPort = 1, destPorts = 0, override = False\<rparr>"
  by (simp add: learnedEntry_def aluSrcPort_def KSZ9477_ALU_TABLE_ENTRY2_PORT_FORWARD_def)

theorem C8_get_dynamic_entry_witness:
  "\<exists>chip'. ksz9477GetDynamicFdbEntry exampleInterface 0 uninitialisedEntry learnedChip =
     Some (NO_ERROR,
           \<lparr>fdbMacAddr = \<lparr>b0 = 0x00, b1 = 0x11, b2 = 0x22, b3 = 0x33, b4 = 0x44, b5 = 0x55\<rparr>,
            srcPort = 1, destPorts = 0, override = False\<rparr>, chip')"
proof -
  have t: "aluTable learnedChip = [(0, 0x01, 0x0011, 0x22334455)]"
    by (simp add: learnedChip_def)
  from C8_get_dynamic_entry [OF spi_example, of uninitialisedEntry learnedChip 0]
  obtain chip' where "ksz9477GetDynamicFdbEntry exampleInterface 0 uninitialisedEntry learnedChip =
      Some (if aluTable learnedChip = [] then (ERROR_END_OF_TABLE, uninitialisedEntry, chip')
            else (NO_ERROR, learnedEntry (aluTable learnedChip ! 0), chip'))"
    by blast
  then show ?thesis
    by (simp add: t learnedEntry_example)
qed

end
